theory Spec2Isabelle
  imports Complex_Main "HOL-Library.Word"
begin

section \<open>JavaScript strings\<close>

text \<open>
  A JavaScript string is a sequence of UTF-16 code units. The string methods the
  gateway calls (\<open>trim\<close>, \<open>startsWith\<close>, \<open>endsWith\<close>, \<open>substring\<close>, \<open>length\<close>)
  all count code units, so a string is modelled as a list of 16-bit words.
  \<open>js\<close> turns an ASCII literal of the source into its code units.
\<close>

type_synonym jschar = "16 word"
type_synonym jsstring = "jschar list"

definition js :: "string \<Rightarrow> jsstring" where
  "js s = map (\<lambda>c. of_nat (of_char c)) s"

definition dquote :: jschar where
  "dquote = 0x22"

text \<open>
  \<open>String.prototype.trim\<close> removes the code units of the productions WhiteSpace and
  LineTerminator from both ends: TAB, VT, FF, SP, NBSP, ZWNBSP, the space separators
  (category Zs), LF, CR, LS and PS.
\<close>

definition isWhiteSpace :: "jschar \<Rightarrow> bool" where
  "isWhiteSpace c =
     (c \<in> {0x09, 0x0A, 0x0B, 0x0C, 0x0D, 0x20, 0xA0, 0x1680,
            0x2028, 0x2029, 0x202F, 0x205F, 0x3000, 0xFEFF}
      \<or> (0x2000 \<le> c \<and> c \<le> 0x200A))"

definition trim :: "jsstring \<Rightarrow> jsstring" where
  "trim s = rev (dropWhile isWhiteSpace (rev (dropWhile isWhiteSpace s)))"

definition startsWith :: "jsstring \<Rightarrow> jsstring \<Rightarrow> bool" where
  "startsWith s searchString = (take (length searchString) s = searchString)"

definition endsWith :: "jsstring \<Rightarrow> jsstring \<Rightarrow> bool" where
  "endsWith s searchString =
     (length searchString \<le> length s
      \<and> drop (length s - length searchString) s = searchString)"

text \<open>
  \<open>s.substring(start, end)\<close>: both indices are clamped to \<open>[0, s.length]\<close>, and
  they are swapped when the first is the larger one.
\<close>

definition substring :: "jsstring \<Rightarrow> int \<Rightarrow> int \<Rightarrow> jsstring" where
  "substring s start end =
     (let len = int (length s);
          finalStart = min (max start 0) len;
          finalEnd = min (max end 0) len;
          from = min finalStart finalEnd;
          to = max finalStart finalEnd
      in take (nat (to - from)) (drop (nat from) s))"

section \<open>JavaScript numbers and \<open>toFixed\<close>\<close>

text \<open>
  A \<open>number\<close> is NaN, an infinity, or a finite binary64 value; a finite value is
  represented by the rational it denotes exactly (every finite binary64 value is a
  rational; negative zero is the rational 0, and \<open>toFixed\<close> treats it as such).
  \<open>Number.prototype.toFixed\<close> is defined by ECMA-262 on this exact value.
\<close>

datatype jsnumber = NaN | PosInfinity | NegInfinity | Finite rat

definition digitChar :: "nat \<Rightarrow> jschar" where
  "digitChar d = of_nat (48 + d)"

fun digits :: "nat \<Rightarrow> jsstring" where
  "digits n = (if n < 10 then [digitChar n] else digits (n div 10) @ [digitChar (n mod 10)])"

text \<open>
  \<open>x.toFixed(f)\<close> for \<open>0 \<le> f \<le> 100\<close> (the source passes 1). A value that is not
  finite is rendered by its name. Of a finite value the sign is split off; a
  magnitude of at least \<open>10^21\<close> is rendered by \<open>Number::toString\<close> (exponent notation
  with the shortest digits that identify the binary64 value), which is the parameter
  \<open>numberToString\<close>; a smaller magnitude is rounded to the integer \<open>n\<close> nearest to
  \<open>x * 10^f\<close>, the larger one on a tie, and \<open>n\<close> is written with \<open>f\<close> fraction digits:
  its digits, filled with zeros on the left up to \<open>f + 1\<close> digits, with a point
  before the last \<open>f\<close> of them.
\<close>

definition fractionLayout :: "nat \<Rightarrow> nat \<Rightarrow> jsstring" where
  "fractionLayout n f =
     (let m = digits n
      in if f = 0 then m
         else
           (let k = length m;
                m' = (if k \<le> f then replicate (f + 1 - k) (digitChar 0) @ m else m);
                k' = (if k \<le> f then f + 1 else k)
            in take (k' - f) m' @ js ''.'' @ drop (k' - f) m'))"

definition toFixed :: "(rat \<Rightarrow> jsstring) \<Rightarrow> jsnumber \<Rightarrow> nat \<Rightarrow> jsstring" where
  "toFixed numberToString v f =
     (case v of
        NaN \<Rightarrow> js ''NaN''
      | PosInfinity \<Rightarrow> js ''Infinity''
      | NegInfinity \<Rightarrow> js ''-Infinity''
      | Finite r \<Rightarrow>
          (let s = (if r < 0 then js ''-'' else []);
               x = \<bar>r\<bar>
           in if 10 ^ 21 \<le> x then s @ numberToString x
              else s @ fractionLayout (nat \<lfloor>x * 10 ^ f + 1 / 2\<rfloor>) f))"

section \<open>The gateway and its environment\<close>

text \<open>
  What \<open>ai.models.generateContent\<close> is given: the model, the prompt, and the
  \<open>config\<close> object's system instruction, response MIME type and response schema.
\<close>

datatype schema =
    SchemaBoolean jsstring
  | SchemaString jsstring
  | SchemaObject "(jsstring \<times> schema) list" "jsstring list"

record request =
  model :: jsstring
  contents :: jsstring
  systemInstruction :: jsstring
  responseMimeType :: "jsstring option"
  responseSchema :: "schema option"

text \<open>
  Exceptions: whatever a failed API call throws or rejects with, the \<open>TypeError\<close> of
  calling \<open>trim\<close> on an undefined \<open>response.text\<close>, and the \<open>SyntaxError\<close> of
  \<open>JSON.parse\<close>.
\<close>

datatype exn = ApiError | TypeError | SyntaxError

text \<open>
  The external client answers a request with a failure or with a response, of which
  the gateway reads only \<open>text\<close>: a string, or undefined (\<open>None\<close>; calling
  \<open>trim\<close> on it throws).
  The world is the module variable \<open>ai\<close> (\<open>None\<close> is \<open>null\<close>, the unavailable
  gateway), the requests sent over the network so far, and the \<open>console.error\<close> lines.
\<close>

type_synonym client = "request \<Rightarrow> exn + jsstring option"

record world =
  ai :: "client option"
  network :: "request list"
  console :: "(jsstring \<times> exn) list"

definition generateContent ::
  "client \<Rightarrow> request \<Rightarrow> world \<Rightarrow> (exn + jsstring option) \<times> world" where
  "generateContent c req w = (c req, w\<lparr>network := network w @ [req]\<rparr>)"

text \<open>\<open>response.text.trim()\<close>\<close>

definition text_trim :: "jsstring option \<Rightarrow> exn + jsstring" where
  "text_trim t = (case t of None \<Rightarrow> Inl TypeError | Some s \<Rightarrow> Inr (trim s))"

text \<open>
  Lines 98 to 101 and 123 to 126, the same statement in both generation operations:
  \<^verbatim>\<open>if (t.startsWith('"') && t.endsWith('"')) { t = t.substring(1, t.length - 1); }\<close>
\<close>

definition removeQuotes :: "jsstring \<Rightarrow> jsstring" where
  "removeQuotes replyText =
     (if startsWith replyText [dquote] \<and> endsWith replyText [dquote]
      then substring replyText 1 (int (length replyText) - 1)
      else replyText)"

section \<open>JSON values and \<open>JSON.parse\<close>\<close>

text \<open>
  The values \<open>JSON.parse\<close> can return. A number keeps its numeral (its rounding to
  binary64 is not modelled); an object is the list of its properties in the order
  of their first definition, each key once.
\<close>

datatype jsvalue =
    JNull
  | JBool bool
  | JNumber jsstring
  | JString jsstring
  | JArray "jsvalue list"
  | JObject "(jsstring \<times> jsvalue) list"

datatype token = LBrace | RBrace | LBracket | RBracket | Colon | Comma | Scalar jsvalue

subsection \<open>Numerals\<close>

text \<open>
  The JSON number grammar, as an automaton:
  \<^verbatim>\<open>-? (0 | [1-9][0-9]*) (. [0-9]+)? ([eE] [+-]? [0-9]+)?\<close>
\<close>

datatype numstate =
  NStart | NMinus | NZero | NInt | NDot | NFrac | NExp | NExpSign | NExpDigits

definition isDigit :: "jschar \<Rightarrow> bool" where
  "isDigit c = (0x30 \<le> c \<and> c \<le> 0x39)"

definition isDigit19 :: "jschar \<Rightarrow> bool" where
  "isDigit19 c = (0x31 \<le> c \<and> c \<le> 0x39)"

definition isExponentMark :: "jschar \<Rightarrow> bool" where
  "isExponentMark c = (c = 0x65 \<or> c = 0x45)"

definition numStep :: "numstate \<Rightarrow> jschar \<Rightarrow> numstate option" where
  "numStep st c =
     (case st of
        NStart \<Rightarrow>
          (if c = 0x2D then Some NMinus else if c = 0x30 then Some NZero
           else if isDigit19 c then Some NInt else None)
      | NMinus \<Rightarrow>
          (if c = 0x30 then Some NZero else if isDigit19 c then Some NInt else None)
      | NZero \<Rightarrow>
          (if c = 0x2E then Some NDot else if isExponentMark c then Some NExp else None)
      | NInt \<Rightarrow>
          (if isDigit c then Some NInt else if c = 0x2E then Some NDot
           else if isExponentMark c then Some NExp else None)
      | NDot \<Rightarrow> (if isDigit c then Some NFrac else None)
      | NFrac \<Rightarrow>
          (if isDigit c then Some NFrac else if isExponentMark c then Some NExp else None)
      | NExp \<Rightarrow>
          (if c = 0x2B \<or> c = 0x2D then Some NExpSign
           else if isDigit c then Some NExpDigits else None)
      | NExpSign \<Rightarrow> (if isDigit c then Some NExpDigits else None)
      | NExpDigits \<Rightarrow> (if isDigit c then Some NExpDigits else None))"

fun numRun :: "numstate \<Rightarrow> jsstring \<Rightarrow> bool" where
  "numRun st [] = (st = NZero \<or> st = NInt \<or> st = NFrac \<or> st = NExpDigits)"
| "numRun st (c # cs) = (case numStep st c of None \<Rightarrow> False | Some st' \<Rightarrow> numRun st' cs)"

definition isJsonNumber :: "jsstring \<Rightarrow> bool" where
  "isJsonNumber s = numRun NStart s"

subsection \<open>Tokens\<close>

text \<open>
  The lexer reads one code unit at a time. Between tokens it skips the four JSON
  white space characters; inside a string it handles the escapes and refuses a raw
  control character; a numeral is the longest run of numeral characters and a
  literal name the longest run of lower-case letters, each checked when it ends.
\<close>

datatype lexmode =
    Between
  | InString jsstring
  | InEscape jsstring
  | InUnicode jsstring nat nat
  | InNumber jsstring
  | InWord jsstring

definition isJsonSpace :: "jschar \<Rightarrow> bool" where
  "isJsonSpace c = (c = 0x20 \<or> c = 0x09 \<or> c = 0x0A \<or> c = 0x0D)"

definition isNumberChar :: "jschar \<Rightarrow> bool" where
  "isNumberChar c = (isDigit c \<or> c = 0x2D \<or> c = 0x2B \<or> c = 0x2E \<or> isExponentMark c)"

definition isLower :: "jschar \<Rightarrow> bool" where
  "isLower c = (0x61 \<le> c \<and> c \<le> 0x7A)"

definition escapeChar :: "jschar \<Rightarrow> jschar option" where
  "escapeChar c =
     (if c = 0x22 then Some 0x22 else if c = 0x5C then Some 0x5C
      else if c = 0x2F then Some 0x2F else if c = 0x62 then Some 0x08
      else if c = 0x66 then Some 0x0C else if c = 0x6E then Some 0x0A
      else if c = 0x72 then Some 0x0D else if c = 0x74 then Some 0x09
      else None)"

definition hexValue :: "jschar \<Rightarrow> nat option" where
  "hexValue c =
     (if isDigit c then Some (unat c - 0x30)
      else if 0x61 \<le> c \<and> c \<le> 0x66 then Some (unat c - 0x61 + 10)
      else if 0x41 \<le> c \<and> c \<le> 0x46 then Some (unat c - 0x41 + 10)
      else None)"

definition wordValue :: "jsstring \<Rightarrow> jsvalue option" where
  "wordValue s =
     (if s = js ''true'' then Some (JBool True)
      else if s = js ''false'' then Some (JBool False)
      else if s = js ''null'' then Some JNull
      else None)"

text \<open>What a code unit read between tokens starts: the new mode and the tokens it completes.\<close>

definition startToken :: "jschar \<Rightarrow> (lexmode \<times> token list) option" where
  "startToken c =
     (if isJsonSpace c then Some (Between, [])
      else if c = 0x7B then Some (Between, [LBrace])
      else if c = 0x7D then Some (Between, [RBrace])
      else if c = 0x5B then Some (Between, [LBracket])
      else if c = 0x5D then Some (Between, [RBracket])
      else if c = 0x3A then Some (Between, [Colon])
      else if c = 0x2C then Some (Between, [Comma])
      else if c = 0x22 then Some (InString [], [])
      else if c = 0x2D \<or> isDigit c then Some (InNumber [c], [])
      else if isLower c then Some (InWord [c], [])
      else None)"

fun lexer :: "lexmode \<Rightarrow> token list \<Rightarrow> jsstring \<Rightarrow> token list option" where
  "lexer Between toks [] = Some toks"
| "lexer (InString s) toks [] = None"
| "lexer (InEscape s) toks [] = None"
| "lexer (InUnicode s k h) toks [] = None"
| "lexer (InNumber n) toks [] =
     (if isJsonNumber n then Some (toks @ [Scalar (JNumber n)]) else None)"
| "lexer (InWord x) toks [] =
     (case wordValue x of None \<Rightarrow> None | Some v \<Rightarrow> Some (toks @ [Scalar v]))"
| "lexer Between toks (c # cs) =
     (case startToken c of
        None \<Rightarrow> None
      | Some (mode, emitted) \<Rightarrow> lexer mode (toks @ emitted) cs)"
| "lexer (InString s) toks (c # cs) =
     (if c = 0x22 then lexer Between (toks @ [Scalar (JString s)]) cs
      else if c = 0x5C then lexer (InEscape s) toks cs
      else if c < 0x20 then None
      else lexer (InString (s @ [c])) toks cs)"
| "lexer (InEscape s) toks (c # cs) =
     (if c = 0x75 then lexer (InUnicode s 0 0) toks cs
      else (case escapeChar c of
              None \<Rightarrow> None
            | Some e \<Rightarrow> lexer (InString (s @ [e])) toks cs))"
| "lexer (InUnicode s k h) toks (c # cs) =
     (case hexValue c of
        None \<Rightarrow> None
      | Some d \<Rightarrow>
          (if k = 3 then lexer (InString (s @ [of_nat (16 * h + d)])) toks cs
           else lexer (InUnicode s (k + 1) (16 * h + d)) toks cs))"
| "lexer (InNumber n) toks (c # cs) =
     (if isNumberChar c then lexer (InNumber (n @ [c])) toks cs
      else if isJsonNumber n then
        (case startToken c of
           None \<Rightarrow> None
         | Some (mode, emitted) \<Rightarrow> lexer mode (toks @ [Scalar (JNumber n)] @ emitted) cs)
      else None)"
| "lexer (InWord x) toks (c # cs) =
     (if isLower c then lexer (InWord (x @ [c])) toks cs
      else (case wordValue x of
              None \<Rightarrow> None
            | Some v \<Rightarrow>
                (case startToken c of
                   None \<Rightarrow> None
                 | Some (mode, emitted) \<Rightarrow> lexer mode (toks @ [Scalar v] @ emitted) cs)))"

subsection \<open>The grammar\<close>

text \<open>
  A pushdown automaton over the tokens. The stack holds the containers that are
  open: an array with its elements so far, an object between two members, or an
  object whose next member has its key and awaits its value. A key that occurs
  again replaces the value of the first occurrence.
\<close>

datatype frame =
    InArray "jsvalue list"
  | InObject "(jsstring \<times> jsvalue) list"
  | InMember "(jsstring \<times> jsvalue) list" jsstring

datatype pstate =
    WantValue
  | WantValueOrClose
  | WantKeyOrClose
  | WantKey
  | WantColon
  | WantCommaOrClose
  | Finished jsvalue

fun put :: "jsstring \<Rightarrow> jsvalue \<Rightarrow> (jsstring \<times> jsvalue) list \<Rightarrow> (jsstring \<times> jsvalue) list" where
  "put k v [] = [(k, v)]"
| "put k v ((k', v') # ms) = (if k = k' then (k, v) # ms else (k', v') # put k v ms)"

text \<open>A value is complete: it is the whole text, an array element or a member's value.\<close>

fun complete :: "jsvalue \<Rightarrow> frame list \<Rightarrow> (pstate \<times> frame list) option" where
  "complete v [] = Some (Finished v, [])"
| "complete v (InArray es # st) = Some (WantCommaOrClose, InArray (es @ [v]) # st)"
| "complete v (InMember ms k # st) = Some (WantCommaOrClose, InObject (put k v ms) # st)"
| "complete v (InObject ms # st) = None"

definition closeArray :: "frame list \<Rightarrow> (pstate \<times> frame list) option" where
  "closeArray st = (case st of InArray es # st' \<Rightarrow> complete (JArray es) st' | _ \<Rightarrow> None)"

definition closeObject :: "frame list \<Rightarrow> (pstate \<times> frame list) option" where
  "closeObject st = (case st of InObject ms # st' \<Rightarrow> complete (JObject ms) st' | _ \<Rightarrow> None)"

definition startValue :: "token \<Rightarrow> frame list \<Rightarrow> (pstate \<times> frame list) option" where
  "startValue t st =
     (case t of
        Scalar v \<Rightarrow> complete v st
      | LBracket \<Rightarrow> Some (WantValueOrClose, InArray [] # st)
      | LBrace \<Rightarrow> Some (WantKeyOrClose, InObject [] # st)
      | _ \<Rightarrow> None)"

definition startMember :: "token \<Rightarrow> frame list \<Rightarrow> (pstate \<times> frame list) option" where
  "startMember t st =
     (case (t, st) of
        (Scalar (JString k), InObject ms # st') \<Rightarrow> Some (WantColon, InMember ms k # st')
      | _ \<Rightarrow> None)"

definition pstep :: "pstate \<Rightarrow> frame list \<Rightarrow> token \<Rightarrow> (pstate \<times> frame list) option" where
  "pstep s st t =
     (case s of
        WantValue \<Rightarrow> startValue t st
      | WantValueOrClose \<Rightarrow> (if t = RBracket then closeArray st else startValue t st)
      | WantKeyOrClose \<Rightarrow> (if t = RBrace then closeObject st else startMember t st)
      | WantKey \<Rightarrow> startMember t st
      | WantColon \<Rightarrow> (if t = Colon then Some (WantValue, st) else None)
      | WantCommaOrClose \<Rightarrow>
          (if t = RBracket then closeArray st
           else if t = RBrace then closeObject st
           else if t = Comma then
             (case st of
                InArray es # st' \<Rightarrow> Some (WantValue, st)
              | InObject ms # st' \<Rightarrow> Some (WantKey, st)
              | _ \<Rightarrow> None)
           else None)
      | Finished v \<Rightarrow> None)"

fun prun :: "pstate \<Rightarrow> frame list \<Rightarrow> token list \<Rightarrow> jsvalue option" where
  "prun s st [] = (case s of Finished v \<Rightarrow> Some v | _ \<Rightarrow> None)"
| "prun s st (t # ts) =
     (case pstep s st t of None \<Rightarrow> None | Some (s', st') \<Rightarrow> prun s' st' ts)"

definition JSON_parse :: "jsstring \<Rightarrow> exn + jsvalue" where
  "JSON_parse text =
     (case lexer Between [] text of
        None \<Rightarrow> Inl SyntaxError
      | Some toks \<Rightarrow>
          (case prun WantValue [] toks of
             None \<Rightarrow> Inl SyntaxError
           | Some v \<Rightarrow> Inr v))"

section \<open>The three gateway operations\<close>

subsection \<open>moderateContent\<close>

definition moderationSchema :: schema where
  "moderationSchema =
     SchemaObject
       [(js ''isPositive'', SchemaBoolean (js ''True if the content is positive, supportive, and safe for a teen audience. False otherwise.'')),
        (js ''reason'', SchemaString (js ''If not positive, provide a brief, gentle, non-judgmental explanation for why the content is not suitable. If positive, provide a short affirmation.'')),
        (js ''isSevere'', SchemaBoolean (js ''True ONLY if the content explicitly discusses immediate plans, methods, or strong intent for self-harm or harming others. False for general sadness or non-threatening negativity.''))]
       [js ''isPositive'', js ''reason'', js ''isSevere'']"

definition moderationRequest :: "jsstring \<Rightarrow> request" where
  "moderationRequest content =
     \<lparr> model = js ''gemini-2.5-flash'',
       contents = js ''Analyze the following text: \"'' @ content @ js ''\"'',
       systemInstruction = js ''You are a content moderator for a teen mental health support app called ZenVibe. Your primary goal is to ensure all content is positive, supportive, and safe. The content must not contain bullying, hate speech, self-harm encouragement, explicit negativity, dismissive language, or anything unsafe for teens. Crucially, you must identify content that suggests an immediate risk. If a user explicitly mentions plans, methods, or a strong, immediate intent to harm themselves or someone else, you MUST set isSevere to true. Vague expressions of sadness or frustration are not severe. Your response must conform to the provided JSON schema.'',
       responseMimeType = Some (js ''application/json''),
       responseSchema = Some moderationSchema \<rparr>"

text \<open>
  The body of the \<open>try\<close> block: \<open>Inl\<close> is a thrown exception. The annotation
  \<open>const result: ModerationResult\<close> is erased when the program is compiled, so the
  value returned is the value \<open>JSON.parse\<close> returns, whatever its shape.
\<close>

definition moderateTry :: "client \<Rightarrow> jsstring \<Rightarrow> world \<Rightarrow> (exn + jsvalue) \<times> world" where
  "moderateTry c content w =
     (case generateContent c (moderationRequest content) w of
        (response, w') \<Rightarrow>
          (case response of
             Inl error \<Rightarrow> (Inl error, w')
           | Inr t \<Rightarrow>
               (case text_trim t of
                  Inl error \<Rightarrow> (Inl error, w')
                | Inr jsonString \<Rightarrow> (JSON_parse jsonString, w'))))"

definition moderateContent :: "jsstring \<Rightarrow> world \<Rightarrow> (exn + jsvalue) \<times> world" where
  "moderateContent content w =
     (case ai w of
        None \<Rightarrow>
          (Inr (JObject [(js ''isPositive'', JBool False),
                         (js ''reason'', JString (js ''Moderation service is currently unavailable.'')),
                         (js ''isSevere'', JBool False)]), w)
      | Some c \<Rightarrow>
          (case moderateTry c content w of
             (Inr result, w') \<Rightarrow> (Inr result, w')
           | (Inl error, w') \<Rightarrow>
               (Inr (JObject [(js ''isPositive'', JBool False),
                              (js ''reason'', JString (js ''Could not check your message at this time. Please try again later.'')),
                              (js ''isSevere'', JBool False)]),
                w'\<lparr>console := console w' @ [(js ''Error moderating content:'', error)]\<rparr>)))"

text \<open>
  Modelled from the spec: the type \<open>ModerationResult\<close> of \<open>../types\<close>, which is not
  among the sources: "\<open>{ isPositive: boolean, reason: string, isSevere: boolean }\<close>
  ... always fully populated (no optional fields)". \<open>field\<close> reads a property of
  a value (\<open>None\<close> is \<open>undefined\<close>).
\<close>

definition field :: "jsstring \<Rightarrow> jsvalue \<Rightarrow> jsvalue option" where
  "field k v = (case v of JObject ms \<Rightarrow> map_of ms k | _ \<Rightarrow> None)"

definition isBoolean :: "jsvalue option \<Rightarrow> bool" where
  "isBoolean v = (case v of Some (JBool b) \<Rightarrow> True | _ \<Rightarrow> False)"

definition isString :: "jsvalue option \<Rightarrow> bool" where
  "isString v = (case v of Some (JString s) \<Rightarrow> True | _ \<Rightarrow> False)"

definition isModerationResult :: "jsvalue \<Rightarrow> bool" where
  "isModerationResult v =
     (isBoolean (field (js ''isPositive'') v)
      \<and> isString (field (js ''reason'') v)
      \<and> isBoolean (field (js ''isSevere'') v))"

subsection \<open>generateSupportiveReply\<close>

definition replyRequest :: "jsstring \<Rightarrow> request" where
  "replyRequest postContent =
     \<lparr> model = js ''gemini-2.5-flash'',
       contents = js ''A teen posted this on a peer support app: \"'' @ postContent
         @ js ''\". Write a short (2-3 sentences), empathetic, and supportive reply. The reply should validate their feelings and offer encouragement. Do not give advice.'',
       systemInstruction = js ''You are a supportive teen on the ZenVibe app. Your tone is like a peer: warm, caring, and positive, but not overly formal or robotic. Use emojis naturally.'',
       responseMimeType = None,
       responseSchema = None \<rparr>"

text \<open>The body of the \<open>try\<close> block: \<open>Inl\<close> is a thrown exception.\<close>

definition replyTry :: "client \<Rightarrow> jsstring \<Rightarrow> world \<Rightarrow> (exn + jsstring) \<times> world" where
  "replyTry c postContent w =
     (case generateContent c (replyRequest postContent) w of
        (response, w') \<Rightarrow>
          (case response of
             Inl error \<Rightarrow> (Inl error, w')
           | Inr t \<Rightarrow>
               (case text_trim t of
                  Inl error \<Rightarrow> (Inl error, w')
                | Inr replyText \<Rightarrow> (Inr (removeQuotes replyText), w'))))"

definition generateSupportiveReply :: "jsstring \<Rightarrow> world \<Rightarrow> (exn + jsstring) \<times> world" where
  "generateSupportiveReply postContent w =
     (case ai w of
        None \<Rightarrow>
          (Inr (js ''Thanks for sharing. It takes courage to open up, and you're not alone in feeling this way.''), w)
      | Some c \<Rightarrow>
          (case replyTry c postContent w of
             (Inr replyText, w') \<Rightarrow> (Inr replyText, w')
           | (Inl error, w') \<Rightarrow>
               (Inr (js ''Thanks for sharing. It takes courage to open up, and you're not alone in feeling this way.''),
                w'\<lparr>console := console w' @ [(js ''Error generating supportive reply:'', error)]\<rparr>)))"

subsection \<open>getQuizFeedback\<close>

definition quizRequest :: "(rat \<Rightarrow> jsstring) \<Rightarrow> jsnumber \<Rightarrow> request" where
  "quizRequest numberToString score =
     \<lparr> model = js ''gemini-2.5-flash'',
       contents = js ''A teen in a mental wellness app just scored '' @ toFixed numberToString score 1
         @ js '' out of 10 on their initial stress level quiz. A higher score indicates higher stress. Write a short, encouraging, and non-clinical message (1-2 sentences) for them. The tone should be warm, supportive, and empathetic, like an AI friend named Aura. If the score is high (above 7), be extra gentle and focus on acknowledging their struggle. If it's mid-range (4-7), be encouraging about the journey. If it's low (under 4), be celebratory and positive about their low stress level.'',
       systemInstruction = js ''You are Aura, an AI friend on the ZenVibe app. Your tone is warm, caring, and positive. You do not give advice.'',
       responseMimeType = None,
       responseSchema = None \<rparr>"

definition quizTry ::
  "(rat \<Rightarrow> jsstring) \<Rightarrow> client \<Rightarrow> jsnumber \<Rightarrow> world \<Rightarrow> (exn + jsstring) \<times> world" where
  "quizTry numberToString c score w =
     (case generateContent c (quizRequest numberToString score) w of
        (response, w') \<Rightarrow>
          (case response of
             Inl error \<Rightarrow> (Inl error, w')
           | Inr t \<Rightarrow>
               (case text_trim t of
                  Inl error \<Rightarrow> (Inl error, w')
                | Inr feedbackText \<Rightarrow> (Inr (removeQuotes feedbackText), w'))))"

definition getQuizFeedback ::
  "(rat \<Rightarrow> jsstring) \<Rightarrow> jsnumber \<Rightarrow> world \<Rightarrow> (exn + jsstring) \<times> world" where
  "getQuizFeedback numberToString score w =
     (case ai w of
        None \<Rightarrow>
          (Inr (js ''Thank you for sharing how you feel. Remember that every step, big or small, is part of your journey.''), w)
      | Some c \<Rightarrow>
          (case quizTry numberToString c score w of
             (Inr feedbackText, w') \<Rightarrow> (Inr feedbackText, w')
           | (Inl error, w') \<Rightarrow>
               (Inr (js ''Thank you for sharing how you feel. Remember that every step, big or small, is part of your journey.''),
                w'\<lparr>console := console w' @ [(js ''Error generating quiz feedback:'', error)]\<rparr>)))"

section \<open>The navigation shell\<close>

text \<open>
  Modelled from the spec: the type \<open>Tab\<close> of \<open>../types\<close>, which is not among the
  sources: "an enumerated value from a fixed closed set \<open>{discussion, chatbot,
  resources, help}\<close>". The component compares and passes the identifiers as
  strings (\<open>id as Tab\<close> changes nothing when the program runs).
\<close>

definition Tab :: "string set" where
  "Tab = {''discussion'', ''chatbot'', ''resources'', ''help''}"

datatype icon = ChatBubbleIcon | SparklesIcon | BookOpenIcon | LifeBuoyIcon

record navItem =
  item_id :: string
  label :: string
  Icon :: icon

definition navItems :: "navItem list" where
  "navItems =
     [\<lparr> item_id = ''discussion'', label = ''Discuss'', Icon = ChatBubbleIcon \<rparr>,
      \<lparr> item_id = ''chatbot'', label = ''Friend Chat'', Icon = SparklesIcon \<rparr>,
      \<lparr> item_id = ''resources'', label = ''Resources'', Icon = BookOpenIcon \<rparr>,
      \<lparr> item_id = ''help'', label = ''Help'', Icon = LifeBuoyIcon \<rparr>]"

text \<open>
  A rendered \<open>button\<close>: its key, its click handler, its class and its two children
  (the icon components of \<open>./icons\<close> are kept by name).
  The callback \<open>setActiveTab\<close> is a procedure of the parent: it is a transformer of
  the parent's state \<open>'s\<close>, and so is the handler \<open>() => setActiveTab(id)\<close>. The
  component calls no hook, so it has no state of its own and a rendering is a
  function of the two props. \<open>Navigation\<close> gives the buttons in the order they are
  rendered, inside the fixed \<open>nav\<close> and \<open>div\<close> elements.
\<close>

record 's button =
  key :: string
  onClick :: "'s \<Rightarrow> 's"
  className :: string
  icon :: icon
  caption :: string

definition Navigation :: "string \<Rightarrow> (string \<Rightarrow> 's \<Rightarrow> 's) \<Rightarrow> 's button list" where
  "Navigation activeTab setActiveTab =
     map (\<lambda>item.
           \<lparr> key = item_id item,
             onClick = setActiveTab (item_id item),
             className =
               ''flex flex-col items-center justify-center space-y-1 w-24 transition-colors duration-200 ''
               @ (if activeTab = item_id item then ''text-violet-400''
                  else ''text-slate-400 hover:text-violet-300''),
             icon = Icon item,
             caption = label item \<rparr>)
         navItems"

section \<open>Notions of the specification\<close>

text \<open>
  The score bands in the specification's words: above 7 the gentle band, from 4 to
  7 the encouragement band, under 4 the celebratory band.
\<close>

datatype band = Gentle | Encouragement | Celebratory

definition spec_band :: "rat \<Rightarrow> band" where
  "spec_band score =
     (if 7 < score then Gentle else if 4 \<le> score then Encouragement else Celebratory)"

text \<open>
  A numeral with one decimal place: an optional minus sign, one digit or more, a
  point and one digit.
\<close>

fun digitsPointDigit :: "jsstring \<Rightarrow> bool" where
  "digitsPointDigit (a # b # c # rest) =
     (isDigit a \<and> (if rest = [] then b = 0x2E \<and> isDigit c else digitsPointDigit (b # c # rest)))"
| "digitsPointDigit _ = False"

definition isOneDecimal :: "jsstring \<Rightarrow> bool" where
  "isOneDecimal s =
     (case s of
        [] \<Rightarrow> False
      | c # cs \<Rightarrow> if c = 0x2D then digitsPointDigit cs else digitsPointDigit s)"

text \<open>The number a string of decimal digits denotes.\<close>

definition decimalValue :: "jsstring \<Rightarrow> nat" where
  "decimalValue s = foldl (\<lambda>a c. 10 * a + (unat c - 48)) 0 s"

section \<open>Example environments\<close>

text \<open>
  The unavailable gateway, a gateway whose client answers every request with the
  text \<open>t\<close>, one whose client fails, and one whose responses carry no text. The
  binary64 values nearest to 7.01 and to 3.99. The examples use scores of magnitude
  below \<open>10^21\<close> or no finite score, for which \<open>toFixed\<close> never calls its parameter;
  they pass \<open>unusedToString\<close>. The one example of a larger magnitude is the score
  \<open>10^21\<close>, which \<open>Number::toString\<close> renders \<open>1e+21\<close>; it passes \<open>toStringOf1e21\<close>.
\<close>

definition unavailableWorld :: world where
  "unavailableWorld = \<lparr> ai = None, network = [], console = [] \<rparr>"

definition answering :: "jsstring \<Rightarrow> world" where
  "answering t = \<lparr> ai = Some (\<lambda>req. Inr (Some t)), network = [], console = [] \<rparr>"

definition failingWorld :: world where
  "failingWorld = \<lparr> ai = Some (\<lambda>req. Inl ApiError), network = [], console = [] \<rparr>"

definition textlessWorld :: world where
  "textlessWorld = \<lparr> ai = Some (\<lambda>req. Inr None), network = [], console = [] \<rparr>"

definition unusedToString :: "rat \<Rightarrow> jsstring" where
  "unusedToString x = []"

definition toStringOf1e21 :: "rat \<Rightarrow> jsstring" where
  "toStringOf1e21 x = js ''1e+21''"

definition binary64_7_01 :: rat where
  "binary64_7_01 = 3946279173483397 / 562949953421312"

definition binary64_3_99 :: rat where
  "binary64_3_99 = 2246170314151035 / 562949953421312"

section \<open>Properties\<close>

declare digits.simps [simp del]

subsection \<open>Strings\<close>

lemma drop_last_one: "xs \<noteq> [] \<Longrightarrow> drop (length xs - Suc 0) xs = [last xs]"
  by (induction xs rule: rev_induct) auto

lemma removeQuotes_eq:
  "removeQuotes u =
     (if 2 \<le> length u \<and> hd u = dquote \<and> last u = dquote then butlast (tl u) else u)"
proof (cases u)
  case Nil
  then show ?thesis by (simp add: removeQuotes_def startsWith_def)
next
  case (Cons x xs)
  show ?thesis
  proof (cases xs)
    case Nil
    with Cons show ?thesis
      by (simp add: removeQuotes_def startsWith_def endsWith_def substring_def)
  next
    case (Cons y ys)
    have len: "length u = Suc (Suc (length ys))" using \<open>u = x # xs\<close> Cons by simp
    have e: "endsWith u [dquote] = (last u = dquote)"
      using drop_last_one [of u] \<open>u = x # xs\<close> by (simp add: endsWith_def)
    have s: "startsWith u [dquote] = (hd u = dquote)"
      using \<open>u = x # xs\<close> by (simp add: startsWith_def)
    have sub: "substring u 1 (int (length u) - 1) = butlast (tl u)"
      using \<open>u = x # xs\<close> Cons by (simp add: substring_def butlast_conv_take)
    show ?thesis using len e s sub by (simp add: removeQuotes_def)
  qed
qed

lemma trim_surroundings:
  "(\<exists>pre post. t = pre @ trim t @ post \<and> list_all isWhiteSpace pre \<and> list_all isWhiteSpace post)
   \<and> (trim t = [] \<or> (\<not> isWhiteSpace (hd (trim t)) \<and> \<not> isWhiteSpace (last (trim t))))"
proof
  define d where "d = dropWhile isWhiteSpace t"
  have t: "t = takeWhile isWhiteSpace t @ d" by (simp add: d_def)
  have d: "d = trim t @ rev (takeWhile isWhiteSpace (rev d))"
  proof -
    have "trim t @ rev (takeWhile isWhiteSpace (rev d))
          = rev (takeWhile isWhiteSpace (rev d) @ dropWhile isWhiteSpace (rev d))"
      by (simp only: rev_append trim_def d_def)
    also have "\<dots> = d" by simp
    finally show ?thesis by simp
  qed
  have "t = takeWhile isWhiteSpace t @ trim t @ rev (takeWhile isWhiteSpace (rev d))"
    using t d by simp
  moreover have "list_all isWhiteSpace (takeWhile isWhiteSpace t)"
    by (simp add: list_all_iff) (metis set_takeWhileD)
  moreover have "list_all isWhiteSpace (rev (takeWhile isWhiteSpace (rev d)))"
    by (simp add: list_all_iff) (metis set_takeWhileD)
  ultimately show "\<exists>pre post. t = pre @ trim t @ post \<and> list_all isWhiteSpace pre \<and> list_all isWhiteSpace post"
    by blast
  show "trim t = [] \<or> (\<not> isWhiteSpace (hd (trim t)) \<and> \<not> isWhiteSpace (last (trim t)))"
  proof (cases "trim t = []")
    case True
    then show ?thesis by simp
  next
    case False
    then have ne: "dropWhile isWhiteSpace (rev d) \<noteq> []" by (simp add: trim_def d_def)
    have l: "last (trim t) = hd (dropWhile isWhiteSpace (rev d))"
      using ne by (simp add: trim_def d_def last_rev)
    have "\<not> isWhiteSpace (hd (dropWhile isWhiteSpace (rev d)))"
      using ne by (rule hd_dropWhile)
    then have 1: "\<not> isWhiteSpace (last (trim t))" using l by simp
    have "d \<noteq> []" using d False by auto
    then have "\<not> isWhiteSpace (hd d)" unfolding d_def by (rule hd_dropWhile)
    moreover have "hd d = hd (trim t)" using d False by (metis hd_append2)
    ultimately have 2: "\<not> isWhiteSpace (hd (trim t))" by simp
    show ?thesis using 1 2 by simp
  qed
qed

subsection \<open>The operations, unfolded\<close>

lemma ai_answering: "ai (answering t) = Some (\<lambda>req. Inr (Some t))"
  by (simp add: answering_def)

lemma reply_success:
  "ai w = Some c \<Longrightarrow> c (replyRequest p) = Inr (Some t) \<Longrightarrow>
   generateSupportiveReply p w =
     (Inr (removeQuotes (trim t)), w\<lparr>network := network w @ [replyRequest p]\<rparr>)"
  by (simp add: generateSupportiveReply_def replyTry_def generateContent_def text_trim_def)

lemma quiz_success:
  "ai w = Some c \<Longrightarrow> c (quizRequest nts score) = Inr (Some t) \<Longrightarrow>
   getQuizFeedback nts score w =
     (Inr (removeQuotes (trim t)), w\<lparr>network := network w @ [quizRequest nts score]\<rparr>)"
  by (simp add: getQuizFeedback_def quizTry_def generateContent_def text_trim_def)

lemma moderate_unfold:
  "ai w = Some c \<Longrightarrow>
   fst (moderateContent content w) =
     (case c (moderationRequest content) of
        Inl e \<Rightarrow> Inr (JObject [(js ''isPositive'', JBool False),
                              (js ''reason'', JString (js ''Could not check your message at this time. Please try again later.'')),
                              (js ''isSevere'', JBool False)])
      | Inr None \<Rightarrow> Inr (JObject [(js ''isPositive'', JBool False),
                              (js ''reason'', JString (js ''Could not check your message at this time. Please try again later.'')),
                              (js ''isSevere'', JBool False)])
      | Inr (Some t) \<Rightarrow>
          (case JSON_parse (trim t) of
             Inl e \<Rightarrow> Inr (JObject [(js ''isPositive'', JBool False),
                              (js ''reason'', JString (js ''Could not check your message at this time. Please try again later.'')),
                              (js ''isSevere'', JBool False)])
           | Inr v \<Rightarrow> Inr v))"
  by (simp add: moderateContent_def moderateTry_def generateContent_def text_trim_def
      split: sum.splits option.splits)

lemma moderateTry_fst:
  "fst (moderateTry c content w) =
     (case c (moderationRequest content) of
        Inl e \<Rightarrow> Inl e
      | Inr None \<Rightarrow> Inl TypeError
      | Inr (Some t) \<Rightarrow> JSON_parse (trim t))"
  by (simp add: moderateTry_def generateContent_def text_trim_def split: sum.splits option.splits)

lemma js_keys_distinct:
  "js ''isPositive'' \<noteq> js ''reason''" "js ''isPositive'' \<noteq> js ''isSevere''"
  "js ''reason'' \<noteq> js ''isSevere''" "js ''isSevere'' \<noteq> js ''reason''"
  "js ''isSevere'' \<noteq> js ''isPositive''" "js ''reason'' \<noteq> js ''isPositive''"
  by (simp_all add: js_def)

lemma fallback_isModerationResult:
  "isModerationResult (JObject [(js ''isPositive'', JBool p), (js ''reason'', JString r), (js ''isSevere'', JBool s)])"
  by (simp add: isModerationResult_def field_def isBoolean_def isString_def js_keys_distinct)

lemma fallback_isSevere:
  "field (js ''isSevere'') (JObject [(js ''isPositive'', JBool p), (js ''reason'', JString r), (js ''isSevere'', JBool s)])
     = Some (JBool s)"
  by (simp add: field_def js_keys_distinct)

subsection \<open>Parsing the example payloads\<close>

lemmas lex_defs = JSON_parse_def startToken_def isJsonSpace_def isDigit_def isLower_def
  wordValue_def isNumberChar_def isExponentMark_def isJsonNumber_def numStep_def isDigit19_def
  escapeChar_def hexValue_def pstep_def startValue_def startMember_def closeArray_def closeObject_def

lemma trim_null: "trim (js ''null'') = js ''null''"
  by (simp add: trim_def js_def isWhiteSpace_def)

lemma parse_null: "JSON_parse (js ''null'') = Inr JNull"
  by (simp add: js_def lex_defs)

lemma trim_partial: "trim (js ''{\"isPositive\":true}'') = js ''{\"isPositive\":true}''"
  by (simp add: trim_def js_def isWhiteSpace_def)

lemma parse_partial:
  "JSON_parse (js ''{\"isPositive\":true}'') = Inr (JObject [(js ''isPositive'', JBool True)])"
  by (simp add: js_def lex_defs)

lemma trim_conforming:
  "trim (js ''{\"isPositive\": true, \"reason\": \"Kind words.\", \"isSevere\": false}'' @ [0x0A])
     = js ''{\"isPositive\": true, \"reason\": \"Kind words.\", \"isSevere\": false}''"
  by (simp add: trim_def js_def isWhiteSpace_def)

lemma parse_conforming:
  "JSON_parse (js ''{\"isPositive\": true, \"reason\": \"Kind words.\", \"isSevere\": false}'')
     = Inr (JObject [(js ''isPositive'', JBool True), (js ''reason'', JString (js ''Kind words.'')),
                     (js ''isSevere'', JBool False)])"
  by (simp add: js_def lex_defs)

lemma parse_not_json: "JSON_parse (trim (js ''not json'')) = Inl SyntaxError"
  by (simp add: trim_def js_def isWhiteSpace_def JSON_parse_def startToken_def isJsonSpace_def
      isDigit_def isLower_def wordValue_def)

lemma trim_quoted_hello: "trim (js ''  \"hello\" '') = js ''\"hello\"''"
  by (simp add: trim_def js_def isWhiteSpace_def)

lemma trim_plain_hello: "trim (js ''hello'' @ [0x0A]) = js ''hello''"
  by (simp add: trim_def js_def isWhiteSpace_def)

lemma trim_nested: "trim (js ''\"nested \"quote\"\"'') = js ''\"nested \"quote\"\"''"
  by (simp add: trim_def js_def isWhiteSpace_def)

lemma trim_single_quote: "trim [dquote] = [dquote]"
  by (simp add: trim_def dquote_def isWhiteSpace_def)

subsection \<open>One decimal place\<close>

lemma digits_nonempty: "digits n \<noteq> []"
  by (subst digits.simps) simp

lemma unat_digitChar: "d < 10 \<Longrightarrow> unat (digitChar d) = 48 + d"
  unfolding digitChar_def by (simp only: unat_of_nat) simp

lemma isDigit_digitChar: "d < 10 \<Longrightarrow> isDigit (digitChar d)"
  by (simp add: isDigit_def word_le_nat_alt unat_digitChar)

lemma digits_all_digits: "list_all isDigit (digits n)"
proof (induction n rule: digits.induct)
  case (1 n)
  show ?case
  proof (cases "n < 10")
    case True
    then show ?thesis by (subst digits.simps) (simp add: isDigit_digitChar)
  next
    case False
    then show ?thesis using 1 by (subst digits.simps) (simp add: isDigit_digitChar)
  qed
qed

lemma decimalValue_snoc: "decimalValue (s @ [c]) = 10 * decimalValue s + (unat c - 48)"
  by (simp add: decimalValue_def)

lemma decimalValue_digits: "decimalValue (digits n) = n"
proof (induction n rule: digits.induct)
  case (1 n)
  show ?case
  proof (cases "n < 10")
    case True
    then show ?thesis by (subst digits.simps) (simp add: decimalValue_def unat_digitChar)
  next
    case False
    then have "decimalValue (digits (n div 10)) = n div 10" using 1 by simp
    then show ?thesis using False
      by (subst digits.simps) (simp add: decimalValue_snoc unat_digitChar)
  qed
qed

lemma digits_inject: "digits m = digits n \<Longrightarrow> m = n"
  by (metis decimalValue_digits)

lemma digitChar_inject:
  assumes "a < 10" and "b < 10" and "digitChar a = digitChar b"
  shows "a = b"
proof -
  have "unat (digitChar a) = unat (digitChar b)" using assms(3) by simp
  then show ?thesis using assms(1,2) by (simp add: unat_digitChar)
qed

text \<open>The numeral of \<open>n\<close> tenths: the digits of \<open>n div 10\<close>, a point, the digit \<open>n mod 10\<close>.\<close>

lemma fractionLayout_one:
  "fractionLayout n (Suc 0) = digits (n div 10) @ [0x2E, digitChar (n mod 10)]"
proof (cases "n < 10")
  case True
  then have m: "digits n = [digitChar n]" by (subst digits.simps) simp
  have z: "digits 0 = [digitChar 0]" by (subst digits.simps) simp
  show ?thesis using True by (simp add: fractionLayout_def m z js_def Let_def)
next
  case False
  then have m: "digits n = digits (n div 10) @ [digitChar (n mod 10)]"
    by (subst digits.simps) simp
  have "0 < length (digits (n div 10))" using digits_nonempty by simp
  then show ?thesis by (simp add: fractionLayout_def m js_def Let_def)
qed

lemma toFixed_one_decimal:
  "\<bar>r\<bar> < 10 ^ 21 \<Longrightarrow>
   toFixed nts (Finite r) 1 =
     (if r < 0 then [0x2D] else [])
     @ digits (nat \<lfloor>\<bar>r\<bar> * 10 + 1 / 2\<rfloor> div 10) @ [0x2E, digitChar (nat \<lfloor>\<bar>r\<bar> * 10 + 1 / 2\<rfloor> mod 10)]"
  by (simp add: toFixed_def Let_def js_def fractionLayout_one)

lemma digitsPointDigit_layout:
  "ds \<noteq> [] \<Longrightarrow> list_all isDigit ds \<Longrightarrow> isDigit d \<Longrightarrow> digitsPointDigit (ds @ [0x2E, d])"
proof (induction ds)
  case Nil
  then show ?case by simp
next
  case (Cons a ds)
  show ?case
  proof (cases ds)
    case Nil
    with Cons.prems show ?thesis by simp
  next
    case (Cons b bs)
    with Cons.prems Cons.IH show ?thesis by (cases bs) auto
  qed
qed

lemma toFixed_isOneDecimal:
  assumes a: "\<bar>r\<bar> < 10 ^ 21"
  shows "isOneDecimal (toFixed nts (Finite r) 1)"
proof -
  define n where "n = nat \<lfloor>\<bar>r\<bar> * 10 + 1 / 2\<rfloor>"
  define body where "body = digits (n div 10) @ [0x2E, digitChar (n mod 10)]"
  have r: "toFixed nts (Finite r) 1 = (if r < 0 then [0x2D] else []) @ body"
    unfolding body_def n_def by (rule toFixed_one_decimal [OF a])
  have b: "digitsPointDigit body"
    unfolding body_def
    by (rule digitsPointDigit_layout) (simp_all add: digits_nonempty digits_all_digits isDigit_digitChar)
  obtain c cs where cs: "digits (n div 10) = c # cs"
    using digits_nonempty [of "n div 10"] by (cases "digits (n div 10)") auto
  have "isDigit c" using digits_all_digits [of "n div 10"] cs by simp
  then have c: "c \<noteq> 0x2D" by (auto simp: isDigit_def)
  have hd: "body = c # (cs @ [0x2E, digitChar (n mod 10)])" by (simp add: body_def cs)
  show ?thesis
  proof (cases "r < 0")
    case True
    then have e: "toFixed nts (Finite r) 1 = 0x2D # body" using r by simp
    show ?thesis unfolding e using b by (simp add: isOneDecimal_def)
  next
    case False
    then have e: "toFixed nts (Finite r) 1 = c # (cs @ [0x2E, digitChar (n mod 10)])"
      using r hd by simp
    show ?thesis unfolding e using b hd c by (simp add: isOneDecimal_def)
  qed
qed

lemma tenths_numeral_inject:
  "digits (m div 10) @ [0x2E, digitChar (m mod 10)] = digits (n div 10) @ [0x2E, digitChar (n mod 10)]
   \<Longrightarrow> m = n"
proof -
  assume "digits (m div 10) @ [0x2E, digitChar (m mod 10)] = digits (n div 10) @ [0x2E, digitChar (n mod 10)]"
  then have "digits (m div 10) = digits (n div 10)" and "digitChar (m mod 10) = digitChar (n mod 10)"
    by simp_all
  then have "m div 10 = n div 10" and "m mod 10 = n mod 10"
    using digits_inject digitChar_inject [of "m mod 10" "n mod 10"] by simp_all
  then show "m = n" by (metis div_mult_mod_eq)
qed

lemma toFixed_one_decimal_eq_iff:
  assumes "\<bar>a\<bar> < 10 ^ 21" and "\<bar>b\<bar> < 10 ^ 21"
  shows "(toFixed nts (Finite a) 1 = toFixed nts (Finite b) 1)
     = ((a < 0) = (b < 0) \<and> \<lfloor>\<bar>a\<bar> * 10 + 1 / 2\<rfloor> = \<lfloor>\<bar>b\<bar> * 10 + 1 / 2\<rfloor>)"
proof -
  let ?m = "nat \<lfloor>\<bar>a\<bar> * 10 + 1 / 2\<rfloor>" and ?n = "nat \<lfloor>\<bar>b\<bar> * 10 + 1 / 2\<rfloor>"
  have pa: "0 \<le> \<lfloor>\<bar>a\<bar> * 10 + 1 / 2\<rfloor>" and pb: "0 \<le> \<lfloor>\<bar>b\<bar> * 10 + 1 / 2\<rfloor>" by simp_all
  have fl: "(\<lfloor>\<bar>a\<bar> * 10 + 1 / 2\<rfloor> = \<lfloor>\<bar>b\<bar> * 10 + 1 / 2\<rfloor>) = (?m = ?n)"
    using pa pb by (simp add: nat_eq_iff)
  obtain c cs where cs: "digits (?m div 10) = c # cs"
    using digits_nonempty [of "?m div 10"] by (cases "digits (?m div 10)") auto
  have "isDigit c" using digits_all_digits [of "?m div 10"] cs by simp
  then have c: "c \<noteq> 0x2D" by (auto simp: isDigit_def)
  obtain d ds where ds: "digits (?n div 10) = d # ds"
    using digits_nonempty [of "?n div 10"] by (cases "digits (?n div 10)") auto
  have "isDigit d" using digits_all_digits [of "?n div 10"] ds by simp
  then have d: "d \<noteq> 0x2D" by (auto simp: isDigit_def)
  have inj: "(digits (?m div 10) @ [0x2E, digitChar (?m mod 10)]
              = digits (?n div 10) @ [0x2E, digitChar (?n mod 10)]) = (?m = ?n)"
    using tenths_numeral_inject [of ?m ?n] by auto
  show ?thesis
  proof (cases "a < 0")
    case True
    show ?thesis
    proof (cases "b < 0")
      case True
      with \<open>a < 0\<close> show ?thesis
        unfolding toFixed_one_decimal [OF assms(1)] toFixed_one_decimal [OF assms(2)] fl
        using inj by simp
    next
      case False
      with \<open>a < 0\<close> show ?thesis
        unfolding toFixed_one_decimal [OF assms(1)] toFixed_one_decimal [OF assms(2)] fl
        using d ds by auto
    qed
  next
    case False
    show ?thesis
    proof (cases "b < 0")
      case True
      with \<open>\<not> a < 0\<close> show ?thesis
        unfolding toFixed_one_decimal [OF assms(1)] toFixed_one_decimal [OF assms(2)] fl
        using c cs by auto
    next
      case False
      with \<open>\<not> a < 0\<close> show ?thesis
        unfolding toFixed_one_decimal [OF assms(1)] toFixed_one_decimal [OF assms(2)] fl
        using inj by simp
    qed
  qed
qed

lemma quizRequest_eq_iff:
  "(quizRequest nts s = quizRequest nts s') = (toFixed nts s 1 = toFixed nts s' 1)"
  by (auto simp: quizRequest_def)

lemma toFixed_Infinity: "toFixed nts PosInfinity 1 = js ''Infinity''"
  by (simp add: toFixed_def)

lemma floor_7_01: "\<lfloor>\<bar>binary64_7_01\<bar> * 10 + 1 / 2\<rfloor> = 70"
  by (simp add: binary64_7_01_def floor_eq_iff)

lemma floor_3_99: "\<lfloor>\<bar>binary64_3_99\<bar> * 10 + 1 / 2\<rfloor> = 40"
  by (simp add: binary64_3_99_def floor_eq_iff)

lemma floor_7: "\<lfloor>\<bar>7 :: rat\<bar> * 10 + 1 / 2\<rfloor> = 70"
  by (simp add: floor_eq_iff)

lemma floor_4: "\<lfloor>\<bar>4 :: rat\<bar> * 10 + 1 / 2\<rfloor> = 40"
  by (simp add: floor_eq_iff)

lemma render_7: "toFixed nts (Finite 7) 1 = js ''7.0''"
proof -
  have b: "\<bar>7 :: rat\<bar> < 10 ^ 21" by simp
  show ?thesis unfolding toFixed_one_decimal [OF b] floor_7
    by (simp add: digits.simps digitChar_def js_def)
qed

lemma render_7_01: "toFixed nts (Finite binary64_7_01) 1 = js ''7.0''"
proof -
  have b: "\<bar>binary64_7_01\<bar> < 10 ^ 21" by (simp add: binary64_7_01_def)
  have s: "\<not> binary64_7_01 < 0" by (simp add: binary64_7_01_def)
  show ?thesis unfolding toFixed_one_decimal [OF b] floor_7_01 using s
    by (simp add: digits.simps digitChar_def js_def)
qed

lemma render_4: "toFixed nts (Finite 4) 1 = js ''4.0''"
proof -
  have b: "\<bar>4 :: rat\<bar> < 10 ^ 21" by simp
  show ?thesis unfolding toFixed_one_decimal [OF b] floor_4
    by (simp add: digits.simps digitChar_def js_def)
qed

lemma render_3_99: "toFixed nts (Finite binary64_3_99) 1 = js ''4.0''"
proof -
  have b: "\<bar>binary64_3_99\<bar> < 10 ^ 21" by (simp add: binary64_3_99_def)
  have s: "\<not> binary64_3_99 < 0" by (simp add: binary64_3_99_def)
  show ?thesis unfolding toFixed_one_decimal [OF b] floor_3_99 using s
    by (simp add: digits.simps digitChar_def js_def)
qed

lemma toFixed_huge:
  "10 ^ 21 \<le> \<bar>r\<bar> \<Longrightarrow> toFixed nts (Finite r) f = (if r < 0 then [0x2D] else []) @ nts \<bar>r\<bar>"
  by (simp add: toFixed_def Let_def js_def)

lemma tenths_rounding:
  fixes x :: rat
  assumes "0 \<le> x"
  shows "\<bar>of_nat (nat \<lfloor>x * 10 + 1 / 2\<rfloor>) / 10 - x\<bar> \<le> 1 / 20"
proof -
  define k :: rat where "k = of_int \<lfloor>x * 10 + 1 / 2\<rfloor>"
  have p: "0 \<le> \<lfloor>x * 10 + 1 / 2\<rfloor>" using assms by simp
  have n: "(of_nat (nat \<lfloor>x * 10 + 1 / 2\<rfloor>) :: rat) = k"
    using p by (simp add: k_def)
  have lo: "k \<le> x * 10 + 1 / 2" unfolding k_def by (rule of_int_floor_le)
  have hi: "x * 10 + 1 / 2 < k + 1"
    unfolding k_def using floor_correct [of "x * 10 + 1 / 2"] by simp
  have 1: "k / 10 - x \<le> 1 / 20" using lo by linarith
  have 2: "- (k / 10 - x) \<le> 1 / 20" using hi by linarith
  show ?thesis unfolding n abs_le_iff using 1 2 by (rule conjI)
qed

lemma quiz_sends_one_request:
  "ai w = Some c \<Longrightarrow>
   network (snd (getQuizFeedback nts score w)) = network w @ [quizRequest nts score]"
  by (simp add: getQuizFeedback_def quizTry_def generateContent_def text_trim_def
      split: option.splits sum.splits prod.splits)

lemma quiz_returns_string: "\<exists>s. fst (getQuizFeedback nts score w) = Inr s"
  by (simp add: getQuizFeedback_def quizTry_def generateContent_def text_trim_def
      split: option.splits sum.splits prod.splits)

lemma trim_take_care: "trim (js ''Take care.'') = js ''Take care.''"
  by (simp add: trim_def js_def isWhiteSpace_def)

lemma removeQuotes_take_care: "removeQuotes (js ''Take care.'') = js ''Take care.''"
  by (simp add: removeQuotes_eq js_def dquote_def)

subsection \<open>Totality\<close>

text \<open>
  C1, as the code has it: none of the three operations ever throws, whatever the
  input and whatever the client does, and the two generation operations return a
  string. The value \<open>moderateContent\<close> returns is a \<open>ModerationResult\<close>, or else it is
  the value \<open>JSON.parse\<close> gave for the trimmed response text.
\<close>

theorem gateway_never_throws:
  "(\<exists>v. fst (moderateContent content w) = Inr v
       \<and> (isModerationResult v
          \<or> (\<exists>c t. ai w = Some c \<and> c (moderationRequest content) = Inr (Some t)
                \<and> JSON_parse (trim t) = Inr v)))
   \<and> (\<exists>s. fst (generateSupportiveReply postContent w) = Inr s)
   \<and> (\<exists>s. fst (getQuizFeedback numberToString score w) = Inr s)"
proof (intro conjI)
  show "\<exists>v. fst (moderateContent content w) = Inr v
       \<and> (isModerationResult v
          \<or> (\<exists>c t. ai w = Some c \<and> c (moderationRequest content) = Inr (Some t)
                \<and> JSON_parse (trim t) = Inr v))"
  proof (cases "ai w")
    case None
    then show ?thesis by (simp add: moderateContent_def fallback_isModerationResult)
  next
    case (Some c)
    then show ?thesis
      by (auto simp: moderate_unfold fallback_isModerationResult split: sum.splits option.splits)
  qed
  show "\<exists>s. fst (generateSupportiveReply postContent w) = Inr s"
    by (simp add: generateSupportiveReply_def replyTry_def generateContent_def text_trim_def
        split: option.splits sum.splits prod.splits)
  show "\<exists>s. fst (getQuizFeedback numberToString score w) = Inr s"
    by (simp add: getQuizFeedback_def quizTry_def generateContent_def text_trim_def
        split: option.splits sum.splits prod.splits)
qed

text \<open>
  C1 as stated, that the value is always of the declared type, fails: when the
  response text is \<open>null\<close>, \<open>moderateContent\<close> returns \<open>null\<close>.
\<close>

theorem moderateContent_null_counterexample:
  "fst (moderateContent (js ''I feel sad today'') (answering (js ''null''))) = Inr JNull
   \<and> \<not> isModerationResult JNull"
  by (simp add: moderate_unfold [OF ai_answering] trim_null parse_null
      isModerationResult_def field_def isBoolean_def)

subsection \<open>The unavailable gateway\<close>

text \<open>
  C2: when the client handle is null, each of the three operations returns its fixed
  fallback value, for any input, and leaves the world as it was: no request is sent
  (and nothing is logged).
\<close>

theorem unavailable_fixed_fallback:
  "ai w = None \<Longrightarrow>
     moderateContent content w =
       (Inr (JObject [(js ''isPositive'', JBool False),
                      (js ''reason'', JString (js ''Moderation service is currently unavailable.'')),
                      (js ''isSevere'', JBool False)]), w)
     \<and> generateSupportiveReply postContent w =
       (Inr (js ''Thanks for sharing. It takes courage to open up, and you're not alone in feeling this way.''), w)
     \<and> getQuizFeedback numberToString score w =
       (Inr (js ''Thank you for sharing how you feel. Remember that every step, big or small, is part of your journey.''), w)"
  by (simp add: moderateContent_def generateSupportiveReply_def getQuizFeedback_def)

theorem unavailable_fixed_fallback_witness:
  "ai unavailableWorld = None
   \<and> moderateContent (js ''I feel sad today'') unavailableWorld =
       (Inr (JObject [(js ''isPositive'', JBool False),
                      (js ''reason'', JString (js ''Moderation service is currently unavailable.'')),
                      (js ''isSevere'', JBool False)]), unavailableWorld)
   \<and> generateSupportiveReply (js ''I feel sad today'') unavailableWorld =
       (Inr (js ''Thanks for sharing. It takes courage to open up, and you're not alone in feeling this way.''), unavailableWorld)
   \<and> getQuizFeedback unusedToString (Finite 12) unavailableWorld =
       (Inr (js ''Thank you for sharing how you feel. Remember that every step, big or small, is part of your journey.''), unavailableWorld)
   \<and> network unavailableWorld = []"
proof -
  have h: "ai unavailableWorld = None" by (simp add: unavailableWorld_def)
  show ?thesis
    using h unavailable_fixed_fallback [where w = unavailableWorld and content = "js ''I feel sad today''"
      and postContent = "js ''I feel sad today''" and numberToString = unusedToString
      and score = "Finite 12", OF h]
    by (simp add: unavailableWorld_def)
qed

subsection \<open>The fallback paths of moderateContent\<close>

text \<open>
  C3: on both fallback paths the result has \<open>isSevere\<close> false. When the gateway is
  unavailable the result is the unavailable fallback; when the \<open>try\<close> block throws,
  the result is exactly the fixed failure fallback. The block throws exactly when
  the call fails, the response has no text, or the text is not JSON.
\<close>

theorem moderation_fallback_not_severe:
  "(ai w = None \<longrightarrow>
      (\<exists>v. fst (moderateContent content w) = Inr v \<and> field (js ''isSevere'') v = Some (JBool False)))
   \<and> (\<forall>c. ai w = Some c \<and> isl (fst (moderateTry c content w)) \<longrightarrow>
        fst (moderateContent content w) =
          Inr (JObject [(js ''isPositive'', JBool False),
                        (js ''reason'', JString (js ''Could not check your message at this time. Please try again later.'')),
                        (js ''isSevere'', JBool False)])
        \<and> (\<exists>v. fst (moderateContent content w) = Inr v \<and> field (js ''isSevere'') v = Some (JBool False)))
   \<and> (\<forall>c. isl (fst (moderateTry c content w)) =
        (isl (c (moderationRequest content))
         \<or> c (moderationRequest content) = Inr None
         \<or> (\<exists>t. c (moderationRequest content) = Inr (Some t) \<and> isl (JSON_parse (trim t)))))"
proof (intro conjI allI impI)
  assume "ai w = None"
  then show "\<exists>v. fst (moderateContent content w) = Inr v \<and> field (js ''isSevere'') v = Some (JBool False)"
    by (simp add: moderateContent_def fallback_isSevere)
next
  fix c assume a: "ai w = Some c \<and> isl (fst (moderateTry c content w))"
  then show r: "fst (moderateContent content w) =
          Inr (JObject [(js ''isPositive'', JBool False),
                        (js ''reason'', JString (js ''Could not check your message at this time. Please try again later.'')),
                        (js ''isSevere'', JBool False)])"
    by (auto simp: moderate_unfold moderateTry_fst split: sum.splits option.splits)
  show "\<exists>v. fst (moderateContent content w) = Inr v \<and> field (js ''isSevere'') v = Some (JBool False)"
    unfolding r by (simp add: fallback_isSevere)
next
  fix c
  show "isl (fst (moderateTry c content w)) =
        (isl (c (moderationRequest content))
         \<or> c (moderationRequest content) = Inr None
         \<or> (\<exists>t. c (moderationRequest content) = Inr (Some t) \<and> isl (JSON_parse (trim t))))"
    by (auto simp: moderateTry_fst split: sum.splits option.splits)
qed

theorem moderation_fallback_not_severe_witness:
  "fst (moderateContent (js ''I feel sad today'') unavailableWorld) =
      Inr (JObject [(js ''isPositive'', JBool False),
                    (js ''reason'', JString (js ''Moderation service is currently unavailable.'')),
                    (js ''isSevere'', JBool False)])
   \<and> fst (moderateContent (js ''I feel sad today'') failingWorld) =
      Inr (JObject [(js ''isPositive'', JBool False),
                    (js ''reason'', JString (js ''Could not check your message at this time. Please try again later.'')),
                    (js ''isSevere'', JBool False)])
   \<and> fst (moderateContent (js ''I feel sad today'') textlessWorld) =
      Inr (JObject [(js ''isPositive'', JBool False),
                    (js ''reason'', JString (js ''Could not check your message at this time. Please try again later.'')),
                    (js ''isSevere'', JBool False)])
   \<and> fst (moderateContent (js ''I feel sad today'') (answering (js ''not json''))) =
      Inr (JObject [(js ''isPositive'', JBool False),
                    (js ''reason'', JString (js ''Could not check your message at this time. Please try again later.'')),
                    (js ''isSevere'', JBool False)])"
proof (intro conjI)
  show "fst (moderateContent (js ''I feel sad today'') unavailableWorld) =
      Inr (JObject [(js ''isPositive'', JBool False),
                    (js ''reason'', JString (js ''Moderation service is currently unavailable.'')),
                    (js ''isSevere'', JBool False)])"
    using moderation_fallback_not_severe [where w = unavailableWorld and content = "js ''I feel sad today''"]
    by (simp add: unavailableWorld_def moderateContent_def)
next
  have "ai failingWorld = Some (\<lambda>req. Inl ApiError)
        \<and> isl (fst (moderateTry (\<lambda>req. Inl ApiError) (js ''I feel sad today'') failingWorld))"
    by (simp add: failingWorld_def moderateTry_fst)
  then show "fst (moderateContent (js ''I feel sad today'') failingWorld) =
      Inr (JObject [(js ''isPositive'', JBool False),
                    (js ''reason'', JString (js ''Could not check your message at this time. Please try again later.'')),
                    (js ''isSevere'', JBool False)])"
    using moderation_fallback_not_severe [where w = failingWorld and content = "js ''I feel sad today''"]
    by blast
next
  have "ai textlessWorld = Some (\<lambda>req. Inr None)
        \<and> isl (fst (moderateTry (\<lambda>req. Inr None) (js ''I feel sad today'') textlessWorld))"
    by (simp add: textlessWorld_def moderateTry_fst)
  then show "fst (moderateContent (js ''I feel sad today'') textlessWorld) =
      Inr (JObject [(js ''isPositive'', JBool False),
                    (js ''reason'', JString (js ''Could not check your message at this time. Please try again later.'')),
                    (js ''isSevere'', JBool False)])"
    using moderation_fallback_not_severe [where w = textlessWorld and content = "js ''I feel sad today''"]
    by blast
next
  have "ai (answering (js ''not json'')) = Some (\<lambda>req. Inr (Some (js ''not json'')))
        \<and> isl (fst (moderateTry (\<lambda>req. Inr (Some (js ''not json''))) (js ''I feel sad today'') (answering (js ''not json''))))"
    by (simp add: answering_def moderateTry_fst parse_not_json)
  then show "fst (moderateContent (js ''I feel sad today'') (answering (js ''not json''))) =
      Inr (JObject [(js ''isPositive'', JBool False),
                    (js ''reason'', JString (js ''Could not check your message at this time. Please try again later.'')),
                    (js ''isSevere'', JBool False)])"
    using moderation_fallback_not_severe [where w = "answering (js ''not json'')" and content = "js ''I feel sad today''"]
    by blast
qed

subsection \<open>The shape of the moderation result\<close>

text \<open>
  C4, as the code has it: when the response has a text, \<open>moderateContent\<close> returns
  what \<open>JSON.parse\<close> makes of the trimmed text, unchanged and unchecked, after one
  request; only a text that is not JSON gives the failure fallback.
\<close>

theorem moderateContent_returns_parsed_value:
  "ai w = Some c \<Longrightarrow> c (moderationRequest content) = Inr (Some t) \<Longrightarrow>
     (\<forall>v. JSON_parse (trim t) = Inr v \<longrightarrow>
        moderateContent content w = (Inr v, w\<lparr>network := network w @ [moderationRequest content]\<rparr>))
     \<and> (\<forall>e. JSON_parse (trim t) = Inl e \<longrightarrow>
        fst (moderateContent content w) =
          Inr (JObject [(js ''isPositive'', JBool False),
                        (js ''reason'', JString (js ''Could not check your message at this time. Please try again later.'')),
                        (js ''isSevere'', JBool False)]))"
  by (simp add: moderateContent_def moderateTry_def generateContent_def text_trim_def)

theorem moderateContent_returns_parsed_value_witness:
  "fst (moderateContent (js ''I feel sad today'')
          (answering (js ''{\"isPositive\": true, \"reason\": \"Kind words.\", \"isSevere\": false}'' @ [0x0A])))
     = Inr (JObject [(js ''isPositive'', JBool True), (js ''reason'', JString (js ''Kind words.'')),
                     (js ''isSevere'', JBool False)])
   \<and> fst (moderateContent (js ''I feel sad today'') (answering (js ''not json''))) =
          Inr (JObject [(js ''isPositive'', JBool False),
                        (js ''reason'', JString (js ''Could not check your message at this time. Please try again later.'')),
                        (js ''isSevere'', JBool False)])"
  using moderateContent_returns_parsed_value [where content = "js ''I feel sad today''"
      and w = "answering (js ''{\"isPositive\": true, \"reason\": \"Kind words.\", \"isSevere\": false}'' @ [0x0A])"
      and t = "js ''{\"isPositive\": true, \"reason\": \"Kind words.\", \"isSevere\": false}'' @ [0x0A]",
      OF ai_answering]
    moderateContent_returns_parsed_value [where content = "js ''I feel sad today''"
      and w = "answering (js ''not json'')" and t = "js ''not json''", OF ai_answering]
  by (simp add: trim_conforming parse_conforming parse_not_json)

text \<open>
  C4 as stated fails: a payload that lacks two of the three required fields is
  returned to the caller as it is, and reading its \<open>isSevere\<close> gives undefined.
\<close>

theorem unvalidated_payload_counterexample:
  "fst (moderateContent (js ''I feel sad today'') (answering (js ''{\"isPositive\":true}'')))
     = Inr (JObject [(js ''isPositive'', JBool True)])
   \<and> \<not> isModerationResult (JObject [(js ''isPositive'', JBool True)])
   \<and> field (js ''isSevere'') (JObject [(js ''isPositive'', JBool True)]) = None"
proof (intro conjI)
  show "fst (moderateContent (js ''I feel sad today'') (answering (js ''{\"isPositive\":true}'')))
     = Inr (JObject [(js ''isPositive'', JBool True)])"
    by (simp add: moderate_unfold [OF ai_answering] trim_partial parse_partial)
  show "\<not> isModerationResult (JObject [(js ''isPositive'', JBool True)])"
    by (simp add: isModerationResult_def field_def isBoolean_def isString_def js_keys_distinct)
  show "field (js ''isSevere'') (JObject [(js ''isPositive'', JBool True)]) = None"
    by (simp add: field_def js_keys_distinct)
qed

subsection \<open>The quiz prompt\<close>

text \<open>
  C5, as the code has it: with a client, \<open>getQuizFeedback\<close> sends for every score one
  request with one and the same prompt, which names all three bands (above 7, 4-7,
  under 4) and holds the score only as \<open>toFixed(1)\<close> renders it; the code chooses no
  variant. Two scores make it send the same request exactly when they are rendered
  alike; for finite scores of magnitude below \<open>10^21\<close> that is when both are
  negative or neither is, and their magnitudes round, half up, to the same number
  of tenths. The scores 7 and 7.01 are both rendered \<open>7.0\<close>, and 4 and 3.99 both
  \<open>4.0\<close>.
\<close>

theorem quiz_request_depends_on_rendered_score:
  assumes "ai w = Some c"
  shows
    "network (snd (getQuizFeedback numberToString score w)) =
       network w @
       [\<lparr> model = js ''gemini-2.5-flash'',
          contents = js ''A teen in a mental wellness app just scored '' @ toFixed numberToString score 1
            @ js '' out of 10 on their initial stress level quiz. A higher score indicates higher stress. Write a short, encouraging, and non-clinical message (1-2 sentences) for them. The tone should be warm, supportive, and empathetic, like an AI friend named Aura. If the score is high (above 7), be extra gentle and focus on acknowledging their struggle. If it's mid-range (4-7), be encouraging about the journey. If it's low (under 4), be celebratory and positive about their low stress level.'',
          systemInstruction = js ''You are Aura, an AI friend on the ZenVibe app. Your tone is warm, caring, and positive. You do not give advice.'',
          responseMimeType = None,
          responseSchema = None \<rparr>]
     \<and> ((network (snd (getQuizFeedback numberToString s w))
           = network (snd (getQuizFeedback numberToString s' w)))
          = (toFixed numberToString s 1 = toFixed numberToString s' 1))
     \<and> (\<bar>a\<bar> < 10 ^ 21 \<and> \<bar>b\<bar> < 10 ^ 21 \<longrightarrow>
          (network (snd (getQuizFeedback numberToString (Finite a) w))
             = network (snd (getQuizFeedback numberToString (Finite b) w)))
          = ((a < 0) = (b < 0) \<and> \<lfloor>\<bar>a\<bar> * 10 + 1 / 2\<rfloor> = \<lfloor>\<bar>b\<bar> * 10 + 1 / 2\<rfloor>))
     \<and> toFixed numberToString (Finite 7) 1 = js ''7.0''
     \<and> toFixed numberToString (Finite binary64_7_01) 1 = js ''7.0''
     \<and> toFixed numberToString (Finite 4) 1 = js ''4.0''
     \<and> toFixed numberToString (Finite binary64_3_99) 1 = js ''4.0''"
proof (intro conjI impI)
  show "network (snd (getQuizFeedback numberToString score w)) =
       network w @
       [\<lparr> model = js ''gemini-2.5-flash'',
          contents = js ''A teen in a mental wellness app just scored '' @ toFixed numberToString score 1
            @ js '' out of 10 on their initial stress level quiz. A higher score indicates higher stress. Write a short, encouraging, and non-clinical message (1-2 sentences) for them. The tone should be warm, supportive, and empathetic, like an AI friend named Aura. If the score is high (above 7), be extra gentle and focus on acknowledging their struggle. If it's mid-range (4-7), be encouraging about the journey. If it's low (under 4), be celebratory and positive about their low stress level.'',
          systemInstruction = js ''You are Aura, an AI friend on the ZenVibe app. Your tone is warm, caring, and positive. You do not give advice.'',
          responseMimeType = None,
          responseSchema = None \<rparr>]"
    using quiz_sends_one_request [OF assms, of numberToString score]
    by (simp add: quizRequest_def)
  show "(network (snd (getQuizFeedback numberToString s w))
           = network (snd (getQuizFeedback numberToString s' w)))
          = (toFixed numberToString s 1 = toFixed numberToString s' 1)"
    by (simp add: quiz_sends_one_request [OF assms] quizRequest_eq_iff)
  show "toFixed numberToString (Finite 7) 1 = js ''7.0''" by (rule render_7)
  show "toFixed numberToString (Finite binary64_7_01) 1 = js ''7.0''" by (rule render_7_01)
  show "toFixed numberToString (Finite 4) 1 = js ''4.0''" by (rule render_4)
  show "toFixed numberToString (Finite binary64_3_99) 1 = js ''4.0''" by (rule render_3_99)
next
  assume "\<bar>a\<bar> < 10 ^ 21 \<and> \<bar>b\<bar> < 10 ^ 21"
  then have e: "(toFixed numberToString (Finite a) 1 = toFixed numberToString (Finite b) 1)
      = ((a < 0) = (b < 0) \<and> \<lfloor>\<bar>a\<bar> * 10 + 1 / 2\<rfloor> = \<lfloor>\<bar>b\<bar> * 10 + 1 / 2\<rfloor>)"
    using toFixed_one_decimal_eq_iff [of a b numberToString] by simp
  show "(network (snd (getQuizFeedback numberToString (Finite a) w))
             = network (snd (getQuizFeedback numberToString (Finite b) w)))
          = ((a < 0) = (b < 0) \<and> \<lfloor>\<bar>a\<bar> * 10 + 1 / 2\<rfloor> = \<lfloor>\<bar>b\<bar> * 10 + 1 / 2\<rfloor>)"
    unfolding e [symmetric]
    by (simp add: quiz_sends_one_request [OF assms] quizRequest_eq_iff)
qed

theorem quiz_request_depends_on_rendered_score_witness:
  "ai (answering (js ''Take care.'')) = Some (\<lambda>req. Inr (Some (js ''Take care.'')))
   \<and> \<bar>29 / 4 :: rat\<bar> < 10 ^ 21 \<and> \<bar>117 / 16 :: rat\<bar> < 10 ^ 21
   \<and> network (snd (getQuizFeedback unusedToString (Finite (29 / 4)) (answering (js ''Take care.'')))) = network (snd (getQuizFeedback unusedToString (Finite (117 / 16)) (answering (js ''Take care.''))))
   \<and> network (snd (getQuizFeedback unusedToString (Finite (29 / 4)) (answering (js ''Take care.'')))) \<noteq> network (snd (getQuizFeedback unusedToString (Finite (- 29 / 4)) (answering (js ''Take care.''))))
   \<and> network (snd (getQuizFeedback unusedToString (Finite (29 / 4)) (answering (js ''Take care.'')))) \<noteq> network (snd (getQuizFeedback unusedToString (Finite 7) (answering (js ''Take care.''))))
   \<and> map contents (network (snd (getQuizFeedback unusedToString (Finite binary64_7_01) (answering (js ''Take care.''))))) =
       [js ''A teen in a mental wellness app just scored 7.0 out of 10 on their initial stress level quiz. A higher score indicates higher stress. Write a short, encouraging, and non-clinical message (1-2 sentences) for them. The tone should be warm, supportive, and empathetic, like an AI friend named Aura. If the score is high (above 7), be extra gentle and focus on acknowledging their struggle. If it's mid-range (4-7), be encouraging about the journey. If it's low (under 4), be celebratory and positive about their low stress level.'']"
proof -
  have f: "\<lfloor>\<bar>29 / 4 :: rat\<bar> * 10 + 1 / 2\<rfloor> = 73" "\<lfloor>\<bar>117 / 16 :: rat\<bar> * 10 + 1 / 2\<rfloor> = 73"
    "\<lfloor>\<bar>- 29 / 4 :: rat\<bar> * 10 + 1 / 2\<rfloor> = 73"
    by (simp_all add: floor_eq_iff)
  have n: "network (answering (js ''Take care.'')) = []" by (simp add: answering_def)
  note near = quiz_request_depends_on_rendered_score [where w = "(answering (js ''Take care.''))" and a = "29 / 4"
      and b = "117 / 16" and numberToString = unusedToString and s = NaN and s' = NaN
      and score = "Finite binary64_7_01", OF ai_answering]
  note minus = quiz_request_depends_on_rendered_score [where w = "(answering (js ''Take care.''))" and a = "29 / 4"
      and b = "- 29 / 4" and numberToString = unusedToString and s = NaN and s' = NaN
      and score = NaN, OF ai_answering]
  note seven = quiz_request_depends_on_rendered_score [where w = "(answering (js ''Take care.''))" and a = "29 / 4"
      and b = "7" and numberToString = unusedToString and s = NaN and s' = NaN
      and score = NaN, OF ai_answering]
  have 1: "network (snd (getQuizFeedback unusedToString (Finite (29 / 4)) (answering (js ''Take care.'')))) = network (snd (getQuizFeedback unusedToString (Finite (117 / 16)) (answering (js ''Take care.''))))"
    using near [THEN conjunct2, THEN conjunct2, THEN conjunct1] unfolding f by simp
  have 2: "network (snd (getQuizFeedback unusedToString (Finite (29 / 4)) (answering (js ''Take care.'')))) \<noteq> network (snd (getQuizFeedback unusedToString (Finite (- 29 / 4)) (answering (js ''Take care.''))))"
    using minus [THEN conjunct2, THEN conjunct2, THEN conjunct1] unfolding f by simp
  have 3: "network (snd (getQuizFeedback unusedToString (Finite (29 / 4)) (answering (js ''Take care.'')))) \<noteq> network (snd (getQuizFeedback unusedToString (Finite 7) (answering (js ''Take care.''))))"
    using seven [THEN conjunct2, THEN conjunct2, THEN conjunct1] unfolding f floor_7 by simp
  have r: "toFixed unusedToString (Finite binary64_7_01) 1 = js ''7.0''"
    using near [THEN conjunct2, THEN conjunct2, THEN conjunct2, THEN conjunct2, THEN conjunct1] .
  have 4: "map contents (network (snd (getQuizFeedback unusedToString (Finite binary64_7_01) (answering (js ''Take care.''))))) =
       [js ''A teen in a mental wellness app just scored 7.0 out of 10 on their initial stress level quiz. A higher score indicates higher stress. Write a short, encouraging, and non-clinical message (1-2 sentences) for them. The tone should be warm, supportive, and empathetic, like an AI friend named Aura. If the score is high (above 7), be extra gentle and focus on acknowledging their struggle. If it's mid-range (4-7), be encouraging about the journey. If it's low (under 4), be celebratory and positive about their low stress level.'']"
    using near [THEN conjunct1] unfolding r n by (simp add: js_def)
  show ?thesis using 1 2 3 4 ai_answering [of "js ''Take care.''"] by simp
qed

text \<open>
  C5 as stated fails: 7.01 is in the gentle band and 7 in the encouragement band
  of the specification, 3.99 in the celebratory band and 4 in the encouragement
  band, yet for each pair \<open>getQuizFeedback\<close> does the same: it sends one and the same
  request, with the score 7.0 for the first pair and 4.0 for the second.
\<close>

theorem quiz_band_routing_counterexample:
  "getQuizFeedback unusedToString (Finite binary64_7_01) (answering (js ''Take care.'')) = getQuizFeedback unusedToString (Finite 7) (answering (js ''Take care.''))
   \<and> map contents (network (snd (getQuizFeedback unusedToString (Finite 7) (answering (js ''Take care.''))))) =
       [js ''A teen in a mental wellness app just scored 7.0 out of 10 on their initial stress level quiz. A higher score indicates higher stress. Write a short, encouraging, and non-clinical message (1-2 sentences) for them. The tone should be warm, supportive, and empathetic, like an AI friend named Aura. If the score is high (above 7), be extra gentle and focus on acknowledging their struggle. If it's mid-range (4-7), be encouraging about the journey. If it's low (under 4), be celebratory and positive about their low stress level.'']
   \<and> spec_band binary64_7_01 = Gentle \<and> spec_band 7 = Encouragement
   \<and> getQuizFeedback unusedToString (Finite binary64_3_99) (answering (js ''Take care.'')) = getQuizFeedback unusedToString (Finite 4) (answering (js ''Take care.''))
   \<and> map contents (network (snd (getQuizFeedback unusedToString (Finite 4) (answering (js ''Take care.''))))) =
       [js ''A teen in a mental wellness app just scored 4.0 out of 10 on their initial stress level quiz. A higher score indicates higher stress. Write a short, encouraging, and non-clinical message (1-2 sentences) for them. The tone should be warm, supportive, and empathetic, like an AI friend named Aura. If the score is high (above 7), be extra gentle and focus on acknowledging their struggle. If it's mid-range (4-7), be encouraging about the journey. If it's low (under 4), be celebratory and positive about their low stress level.'']
   \<and> spec_band binary64_3_99 = Celebratory \<and> spec_band 4 = Encouragement"
proof (intro conjI)
  have q7: "quizRequest unusedToString (Finite binary64_7_01) = quizRequest unusedToString (Finite 7)"
    unfolding quizRequest_eq_iff render_7 render_7_01 by (rule refl)
  have q4: "quizRequest unusedToString (Finite binary64_3_99) = quizRequest unusedToString (Finite 4)"
    unfolding quizRequest_eq_iff render_4 render_3_99 by (rule refl)
  have g: "getQuizFeedback unusedToString score (answering (js ''Take care.'')) = (Inr (js ''Take care.''),
        (answering (js ''Take care.''))\<lparr>network := network (answering (js ''Take care.'')) @ [quizRequest unusedToString score]\<rparr>)" for score
    using quiz_success [where w = "(answering (js ''Take care.''))" and nts = unusedToString and score = score
        and t = "js ''Take care.''", OF ai_answering]
    by (simp add: trim_take_care removeQuotes_take_care)
  show "getQuizFeedback unusedToString (Finite binary64_7_01) (answering (js ''Take care.'')) = getQuizFeedback unusedToString (Finite 7) (answering (js ''Take care.''))"
    unfolding g q7 by (rule refl)
  show "getQuizFeedback unusedToString (Finite binary64_3_99) (answering (js ''Take care.'')) = getQuizFeedback unusedToString (Finite 4) (answering (js ''Take care.''))"
    unfolding g q4 by (rule refl)
  have n: "network (answering (js ''Take care.'')) = []" by (simp add: answering_def)
  show "map contents (network (snd (getQuizFeedback unusedToString (Finite 7) (answering (js ''Take care.''))))) =
       [js ''A teen in a mental wellness app just scored 7.0 out of 10 on their initial stress level quiz. A higher score indicates higher stress. Write a short, encouraging, and non-clinical message (1-2 sentences) for them. The tone should be warm, supportive, and empathetic, like an AI friend named Aura. If the score is high (above 7), be extra gentle and focus on acknowledging their struggle. If it's mid-range (4-7), be encouraging about the journey. If it's low (under 4), be celebratory and positive about their low stress level.'']"
    unfolding g quizRequest_def render_7 n by (simp add: js_def)
  show "map contents (network (snd (getQuizFeedback unusedToString (Finite 4) (answering (js ''Take care.''))))) =
       [js ''A teen in a mental wellness app just scored 4.0 out of 10 on their initial stress level quiz. A higher score indicates higher stress. Write a short, encouraging, and non-clinical message (1-2 sentences) for them. The tone should be warm, supportive, and empathetic, like an AI friend named Aura. If the score is high (above 7), be extra gentle and focus on acknowledging their struggle. If it's mid-range (4-7), be encouraging about the journey. If it's low (under 4), be celebratory and positive about their low stress level.'']"
    unfolding g quizRequest_def render_4 n by (simp add: js_def)
  show "spec_band binary64_7_01 = Gentle" by (simp add: spec_band_def binary64_7_01_def)
  show "spec_band 7 = Encouragement" by (simp add: spec_band_def)
  show "spec_band binary64_3_99 = Celebratory" by (simp add: spec_band_def binary64_3_99_def)
  show "spec_band 4 = Encouragement" by (simp add: spec_band_def)
qed

text \<open>
  C8, as the code has it: with a client, \<open>getQuizFeedback\<close> checks no range: for any
  score whatever it sends one request, whose prompt holds the score as \<open>toFixed(1)\<close>
  renders it, and returns a string. A finite score of magnitude below \<open>10^21\<close>,
  negative and above 10 included, is rendered to one decimal place: a minus sign
  when it is negative, then the digits of \<open>n div 10\<close>, a point and the digit
  \<open>n mod 10\<close>, where \<open>n\<close> tenths is the magnitude rounded half up (so within a
  twentieth of it). NaN and the infinities are rendered by their names. A finite
  score of magnitude \<open>10^21\<close> or more is rendered as the minus sign, when it is
  negative, and what \<open>Number::toString\<close> gives for the magnitude, which is the
  parameter \<open>numberToString\<close> and is not constrained here.
\<close>

theorem quiz_no_range_check:
  assumes "ai w = Some c"
  shows
    "(\<exists>s. fst (getQuizFeedback numberToString score w) = Inr s)
     \<and> network (snd (getQuizFeedback numberToString score w)) =
         network w @
         [\<lparr> model = js ''gemini-2.5-flash'',
          contents = js ''A teen in a mental wellness app just scored '' @ toFixed numberToString score 1
            @ js '' out of 10 on their initial stress level quiz. A higher score indicates higher stress. Write a short, encouraging, and non-clinical message (1-2 sentences) for them. The tone should be warm, supportive, and empathetic, like an AI friend named Aura. If the score is high (above 7), be extra gentle and focus on acknowledging their struggle. If it's mid-range (4-7), be encouraging about the journey. If it's low (under 4), be celebratory and positive about their low stress level.'',
          systemInstruction = js ''You are Aura, an AI friend on the ZenVibe app. Your tone is warm, caring, and positive. You do not give advice.'',
          responseMimeType = None,
          responseSchema = None \<rparr>]
     \<and> (\<forall>r. score = Finite r \<and> \<bar>r\<bar> < 10 ^ 21 \<longrightarrow>
          toFixed numberToString score 1 =
            (if r < 0 then [0x2D] else [])
            @ digits (nat \<lfloor>\<bar>r\<bar> * 10 + 1 / 2\<rfloor> div 10)
            @ [0x2E, digitChar (nat \<lfloor>\<bar>r\<bar> * 10 + 1 / 2\<rfloor> mod 10)]
          \<and> isOneDecimal (toFixed numberToString score 1)
          \<and> \<bar>of_nat (nat \<lfloor>\<bar>r\<bar> * 10 + 1 / 2\<rfloor>) / 10 - \<bar>r\<bar>\<bar> \<le> 1 / 20)
     \<and> (\<forall>r. score = Finite r \<and> 10 ^ 21 \<le> \<bar>r\<bar> \<longrightarrow>
          toFixed numberToString score 1 = (if r < 0 then [0x2D] else []) @ numberToString \<bar>r\<bar>)
     \<and> (score = NaN \<longrightarrow> toFixed numberToString score 1 = js ''NaN'')
     \<and> (score = PosInfinity \<longrightarrow> toFixed numberToString score 1 = js ''Infinity'')
     \<and> (score = NegInfinity \<longrightarrow> toFixed numberToString score 1 = js ''-Infinity'')"
proof (intro conjI allI impI)
  show "\<exists>s. fst (getQuizFeedback numberToString score w) = Inr s"
    by (rule quiz_returns_string)
  show "network (snd (getQuizFeedback numberToString score w)) =
         network w @
         [\<lparr> model = js ''gemini-2.5-flash'',
          contents = js ''A teen in a mental wellness app just scored '' @ toFixed numberToString score 1
            @ js '' out of 10 on their initial stress level quiz. A higher score indicates higher stress. Write a short, encouraging, and non-clinical message (1-2 sentences) for them. The tone should be warm, supportive, and empathetic, like an AI friend named Aura. If the score is high (above 7), be extra gentle and focus on acknowledging their struggle. If it's mid-range (4-7), be encouraging about the journey. If it's low (under 4), be celebratory and positive about their low stress level.'',
          systemInstruction = js ''You are Aura, an AI friend on the ZenVibe app. Your tone is warm, caring, and positive. You do not give advice.'',
          responseMimeType = None,
          responseSchema = None \<rparr>]"
    using quiz_sends_one_request [OF assms, of numberToString score]
    by (simp add: quizRequest_def)
next
  fix r assume a: "score = Finite r \<and> \<bar>r\<bar> < 10 ^ 21"
  then have b: "\<bar>r\<bar> < 10 ^ 21" and s: "score = Finite r" by simp_all
  show "toFixed numberToString score 1 =
            (if r < 0 then [0x2D] else [])
            @ digits (nat \<lfloor>\<bar>r\<bar> * 10 + 1 / 2\<rfloor> div 10)
            @ [0x2E, digitChar (nat \<lfloor>\<bar>r\<bar> * 10 + 1 / 2\<rfloor> mod 10)]"
    unfolding s by (rule toFixed_one_decimal [OF b])
  show "isOneDecimal (toFixed numberToString score 1)"
    unfolding s by (rule toFixed_isOneDecimal [OF b])
  show "\<bar>of_nat (nat \<lfloor>\<bar>r\<bar> * 10 + 1 / 2\<rfloor>) / 10 - \<bar>r\<bar>\<bar> \<le> 1 / 20"
    by (rule tenths_rounding) simp
next
  fix r assume "score = Finite r \<and> 10 ^ 21 \<le> \<bar>r\<bar>"
  then show "toFixed numberToString score 1 = (if r < 0 then [0x2D] else []) @ numberToString \<bar>r\<bar>"
    using toFixed_huge [of r numberToString 1] by simp
next
  assume "score = NaN" then show "toFixed numberToString score 1 = js ''NaN''"
    by (simp add: toFixed_def)
next
  assume "score = PosInfinity" then show "toFixed numberToString score 1 = js ''Infinity''"
    by (simp add: toFixed_def)
next
  assume "score = NegInfinity" then show "toFixed numberToString score 1 = js ''-Infinity''"
    by (simp add: toFixed_def)
qed

theorem quiz_no_range_check_witness:
  "ai (answering (js ''Take care.'')) = Some (\<lambda>req. Inr (Some (js ''Take care.'')))
   \<and> map contents (network (snd (getQuizFeedback unusedToString (Finite (- 3)) (answering (js ''Take care.''))))) =
       [js ''A teen in a mental wellness app just scored -3.0 out of 10 on their initial stress level quiz. A higher score indicates higher stress. Write a short, encouraging, and non-clinical message (1-2 sentences) for them. The tone should be warm, supportive, and empathetic, like an AI friend named Aura. If the score is high (above 7), be extra gentle and focus on acknowledging their struggle. If it's mid-range (4-7), be encouraging about the journey. If it's low (under 4), be celebratory and positive about their low stress level.'']
   \<and> toFixed unusedToString (Finite (- 3)) 1 = js ''-3.0''
   \<and> isOneDecimal (toFixed unusedToString (Finite (- 3)) 1)
   \<and> toFixed unusedToString (Finite (25 / 2)) 1 = js ''12.5''
   \<and> isOneDecimal (toFixed unusedToString (Finite (25 / 2)) 1)
   \<and> (10 :: rat) ^ 21 \<le> \<bar>10 ^ 21\<bar>
   \<and> toFixed toStringOf1e21 (Finite (10 ^ 21)) 1 = js ''1e+21''
   \<and> toFixed unusedToString NaN 1 = js ''NaN''"
proof -
  note low = quiz_no_range_check [where w = "(answering (js ''Take care.''))" and score = "Finite (- 3)"
        and numberToString = unusedToString, OF ai_answering]
  note high = quiz_no_range_check [where w = "(answering (js ''Take care.''))" and score = "Finite (25 / 2)"
        and numberToString = unusedToString, OF ai_answering]
  note huge = quiz_no_range_check [where w = "(answering (js ''Take care.''))" and score = "Finite (10 ^ 21)"
        and numberToString = toStringOf1e21, OF ai_answering]
  note nan = quiz_no_range_check [where w = "(answering (js ''Take care.''))" and score = NaN
        and numberToString = unusedToString, OF ai_answering]
  have n: "network (answering (js ''Take care.'')) = []" by (simp add: answering_def)
  have f: "\<lfloor>\<bar>- 3 :: rat\<bar> * 10 + 1 / 2\<rfloor> = 30" "\<lfloor>\<bar>25 / 2 :: rat\<bar> * 10 + 1 / 2\<rfloor> = 125"
    by (simp_all add: floor_eq_iff)
  have b: "\<bar>- 3 :: rat\<bar> < 10 ^ 21" "\<bar>25 / 2 :: rat\<bar> < 10 ^ 21" "(10 :: rat) ^ 21 \<le> \<bar>10 ^ 21\<bar>"
    by simp_all
  note lowr = low [THEN conjunct2, THEN conjunct2, THEN conjunct1, rule_format, of "- 3"]
  note highr = high [THEN conjunct2, THEN conjunct2, THEN conjunct1, rule_format, of "25 / 2"]
  have 1: "toFixed unusedToString (Finite (- 3)) 1 = js ''-3.0''"
    using lowr [THEN conjunct1] b(1) unfolding f
    by (simp add: digits.simps digitChar_def js_def)
  have 2: "isOneDecimal (toFixed unusedToString (Finite (- 3)) 1)"
    using lowr [THEN conjunct2, THEN conjunct1] b(1) by simp
  have 3: "toFixed unusedToString (Finite (25 / 2)) 1 = js ''12.5''"
    using highr [THEN conjunct1] b(2) unfolding f
    by (simp add: digits.simps digitChar_def js_def)
  have 4: "isOneDecimal (toFixed unusedToString (Finite (25 / 2)) 1)"
    using highr [THEN conjunct2, THEN conjunct1] b(2) by simp
  have 5: "toFixed toStringOf1e21 (Finite (10 ^ 21)) 1 = js ''1e+21''"
    using huge [THEN conjunct2, THEN conjunct2, THEN conjunct2, THEN conjunct1, rule_format, of "10 ^ 21"]
    by (simp add: toStringOf1e21_def)
  have 6: "toFixed unusedToString NaN 1 = js ''NaN''"
    using nan [THEN conjunct2, THEN conjunct2, THEN conjunct2, THEN conjunct2, THEN conjunct1] by simp
  have 7: "map contents (network (snd (getQuizFeedback unusedToString (Finite (- 3)) (answering (js ''Take care.''))))) =
       [js ''A teen in a mental wellness app just scored -3.0 out of 10 on their initial stress level quiz. A higher score indicates higher stress. Write a short, encouraging, and non-clinical message (1-2 sentences) for them. The tone should be warm, supportive, and empathetic, like an AI friend named Aura. If the score is high (above 7), be extra gentle and focus on acknowledging their struggle. If it's mid-range (4-7), be encouraging about the journey. If it's low (under 4), be celebratory and positive about their low stress level.'']"
    using low [THEN conjunct2, THEN conjunct1] unfolding 1 n by (simp add: js_def)
  show ?thesis using 1 2 3 4 5 6 7 b(3) ai_answering [of "js ''Take care.''"] by simp
qed

text \<open>
  C8 as stated, that every score above 10 is rendered to one decimal place,
  fails at \<open>Infinity\<close>: the prompt says "scored Infinity out of 10".
\<close>

theorem quiz_infinite_score_counterexample:
  "toFixed unusedToString PosInfinity 1 = js ''Infinity''
   \<and> \<not> isOneDecimal (toFixed unusedToString PosInfinity 1)
   \<and> fst (getQuizFeedback unusedToString PosInfinity (answering (js ''Take care.''))) = Inr (js ''Take care.'')
   \<and> map contents (network (snd (getQuizFeedback unusedToString PosInfinity (answering (js ''Take care.''))))) =
       [js ''A teen in a mental wellness app just scored Infinity out of 10 on their initial stress level quiz. A higher score indicates higher stress. Write a short, encouraging, and non-clinical message (1-2 sentences) for them. The tone should be warm, supportive, and empathetic, like an AI friend named Aura. If the score is high (above 7), be extra gentle and focus on acknowledging their struggle. If it's mid-range (4-7), be encouraging about the journey. If it's low (under 4), be celebratory and positive about their low stress level.'']"
proof (intro conjI)
  show "toFixed unusedToString PosInfinity 1 = js ''Infinity''" by (rule toFixed_Infinity)
  show "\<not> isOneDecimal (toFixed unusedToString PosInfinity 1)"
    unfolding toFixed_Infinity by (simp add: isOneDecimal_def js_def isDigit_def)
  have g: "getQuizFeedback unusedToString PosInfinity (answering (js ''Take care.'')) = (Inr (js ''Take care.''),
        (answering (js ''Take care.''))\<lparr>network := network (answering (js ''Take care.'')) @ [quizRequest unusedToString PosInfinity]\<rparr>)"
    using quiz_success [where w = "(answering (js ''Take care.''))" and nts = unusedToString and score = PosInfinity
        and t = "js ''Take care.''", OF ai_answering]
    by (simp add: trim_take_care removeQuotes_take_care)
  show "fst (getQuizFeedback unusedToString PosInfinity (answering (js ''Take care.''))) = Inr (js ''Take care.'')"
    unfolding g by simp
  have n: "network (answering (js ''Take care.'')) = []" by (simp add: answering_def)
  show "map contents (network (snd (getQuizFeedback unusedToString PosInfinity (answering (js ''Take care.''))))) =
       [js ''A teen in a mental wellness app just scored Infinity out of 10 on their initial stress level quiz. A higher score indicates higher stress. Write a short, encouraging, and non-clinical message (1-2 sentences) for them. The tone should be warm, supportive, and empathetic, like an AI friend named Aura. If the score is high (above 7), be extra gentle and focus on acknowledging their struggle. If it's mid-range (4-7), be encouraging about the journey. If it's low (under 4), be celebratory and positive about their low stress level.'']"
    unfolding g quizRequest_def toFixed_Infinity n by (simp add: js_def)
qed

subsection \<open>Post-processing of the generated text\<close>

text \<open>
  C6: on a successful call both generation operations return the trimmed response
  text, and the trimmed text loses its first and its last character exactly when it
  has two characters or more and both are double quotes; whatever stands between
  them, inner quotes too, is kept. In every other case the trimmed text is returned
  as it is (a text that is one double quote is returned unchanged). The trimmed
  text is the response text without the white space around it.
\<close>

theorem quotes_stripped_once:
  "ai w = Some c \<Longrightarrow>
     (c (replyRequest postContent) = Inr (Some t) \<longrightarrow>
        fst (generateSupportiveReply postContent w) =
          Inr (if 2 \<le> length (trim t) \<and> hd (trim t) = dquote \<and> last (trim t) = dquote
               then butlast (tl (trim t)) else trim t))
     \<and> (c (quizRequest numberToString score) = Inr (Some t) \<longrightarrow>
        fst (getQuizFeedback numberToString score w) =
          Inr (if 2 \<le> length (trim t) \<and> hd (trim t) = dquote \<and> last (trim t) = dquote
               then butlast (tl (trim t)) else trim t))
     \<and> (\<exists>pre post. t = pre @ trim t @ post
           \<and> list_all isWhiteSpace pre \<and> list_all isWhiteSpace post)
     \<and> (trim t = [] \<or> (\<not> isWhiteSpace (hd (trim t)) \<and> \<not> isWhiteSpace (last (trim t))))"
  using removeQuotes_eq [of "trim t"] trim_surroundings [of t]
  by (simp add: reply_success quiz_success)

theorem quotes_stripped_once_witness:
  "fst (generateSupportiveReply (js ''I feel sad today'') (answering (js ''  \"hello\" ''))) = Inr (js ''hello'')
   \<and> fst (getQuizFeedback unusedToString (Finite 5) (answering (js ''  \"hello\" ''))) = Inr (js ''hello'')
   \<and> fst (generateSupportiveReply (js ''I feel sad today'') (answering (js ''hello'' @ [0x0A]))) = Inr (js ''hello'')
   \<and> fst (getQuizFeedback unusedToString (Finite 5) (answering (js ''hello'' @ [0x0A]))) = Inr (js ''hello'')
   \<and> fst (generateSupportiveReply (js ''I feel sad today'') (answering (js ''\"nested \"quote\"\"''))) = Inr (js ''nested \"quote\"'')
   \<and> fst (getQuizFeedback unusedToString (Finite 5) (answering (js ''\"nested \"quote\"\"''))) = Inr (js ''nested \"quote\"'')
   \<and> fst (generateSupportiveReply (js ''I feel sad today'') (answering [dquote])) = Inr [dquote]"
proof -
  note quoted = quotes_stripped_once [where w = "answering (js ''  \"hello\" '')" and t = "js ''  \"hello\" ''"
      and postContent = "js ''I feel sad today''" and numberToString = unusedToString
      and score = "Finite 5", OF ai_answering]
  note plain = quotes_stripped_once [where w = "answering (js ''hello'' @ [0x0A])" and t = "js ''hello'' @ [0x0A]"
      and postContent = "js ''I feel sad today''" and numberToString = unusedToString
      and score = "Finite 5", OF ai_answering]
  note nested = quotes_stripped_once [where w = "answering (js ''\"nested \"quote\"\"'')" and t = "js ''\"nested \"quote\"\"''"
      and postContent = "js ''I feel sad today''" and numberToString = unusedToString
      and score = "Finite 5", OF ai_answering]
  note single = quotes_stripped_once [where w = "answering [dquote]" and t = "[dquote]"
      and postContent = "js ''I feel sad today''" and numberToString = unusedToString
      and score = "Finite 5", OF ai_answering]
  show ?thesis
    using quoted [THEN conjunct1] quoted [THEN conjunct2, THEN conjunct1]
      plain [THEN conjunct1] plain [THEN conjunct2, THEN conjunct1]
      nested [THEN conjunct1] nested [THEN conjunct2, THEN conjunct1]
      single [THEN conjunct1]
    unfolding trim_quoted_hello trim_plain_hello trim_nested trim_single_quote
    by (simp add: js_def dquote_def)
qed

text \<open>
  C9: when the response text is exactly two double quotes, both generation operations
  return the empty string.
\<close>

theorem empty_reply_possible:
  "ai w = Some c \<Longrightarrow>
     (c (replyRequest postContent) = Inr (Some [dquote, dquote]) \<longrightarrow>
        fst (generateSupportiveReply postContent w) = Inr [])
     \<and> (c (quizRequest numberToString score) = Inr (Some [dquote, dquote]) \<longrightarrow>
        fst (getQuizFeedback numberToString score w) = Inr [])"
  by (simp add: reply_success quiz_success removeQuotes_eq trim_def isWhiteSpace_def dquote_def)

theorem empty_reply_possible_witness:
  "fst (generateSupportiveReply (js ''I feel sad today'') (answering (js ''\"\"''))) = Inr []
   \<and> fst (getQuizFeedback unusedToString (Finite 5) (answering (js ''\"\"''))) = Inr []"
  using empty_reply_possible [where w = "answering (js ''\"\"'')" and postContent = "js ''I feel sad today''"
      and numberToString = unusedToString and score = "Finite 5", OF ai_answering]
  by (simp add: js_def dquote_def)

subsection \<open>Navigation\<close>

text \<open>
  C7: whatever the active tab, the four buttons carry the four tab identifiers in
  order, these are exactly the values of \<open>Tab\<close>, and a button's click handler is
  one call of the callback with that button's identifier: on the parent's state it
  has the callback's effect and no other, and with a callback that records its
  calls a click leaves exactly one call, with the button's identifier. The
  component has no state of its own. Clicking the third button while \<open>chatbot\<close> is
  active calls the callback once, with \<open>resources\<close>.
\<close>

theorem click_calls_callback_once:
  "map key (Navigation activeTab setActiveTab) = [''discussion'', ''chatbot'', ''resources'', ''help'']
   \<and> set (map key (Navigation activeTab setActiveTab)) = Tab
   \<and> map onClick (Navigation activeTab setActiveTab)
       = [setActiveTab ''discussion'', setActiveTab ''chatbot'', setActiveTab ''resources'', setActiveTab ''help'']
   \<and> map (\<lambda>b. onClick b []) (Navigation activeTab (\<lambda>tab calls. calls @ [tab]))
       = [[''discussion''], [''chatbot''], [''resources''], [''help'']]
   \<and> onClick (Navigation ''chatbot'' (\<lambda>tab calls. calls @ [tab]) ! 2) [] = [''resources'']"
  by (simp add: Navigation_def navItems_def Tab_def)

text \<open>
  C10: the identifier a button passes to the callback does not depend on the active
  tab: for two values of \<open>activeTab\<close> the keys and the click handlers of the
  buttons are the same, and so is everything else but the class name.
\<close>

theorem callback_argument_independent_of_activeTab:
  "map key (Navigation activeTab setActiveTab) = map key (Navigation activeTab' setActiveTab)
   \<and> map onClick (Navigation activeTab setActiveTab) = map onClick (Navigation activeTab' setActiveTab)
   \<and> map (\<lambda>b. b\<lparr>className := []\<rparr>) (Navigation activeTab setActiveTab)
       = map (\<lambda>b. b\<lparr>className := []\<rparr>) (Navigation activeTab' setActiveTab)"
  by (simp add: Navigation_def)

end
